theory Spec2Isabelle
  imports Complex_Main "HOL-Library.Multiset"
begin

unbundle bit_operations_syntax

section \<open>Numbers\<close>

text \<open>
  A JavaScript \<^verbatim>\<open>number\<close> that is finite is modelled as a \<^typ>\<open>real\<close>: the rounding
  error of the floating-point operations and the sign of zero are not modelled. The fields of
  a profile (JSON data) and everything the colour conversion computes are finite. The only
  non-finite value the program creates itself is the \<^verbatim>\<open>Infinity\<close> that \<^verbatim>\<open>hueSectorDistance\<close>
  starts from; what the arithmetic after it does with \<^verbatim>\<open>Infinity\<close>, \<^verbatim>\<open>-Infinity\<close> and
  \<^verbatim>\<open>NaN\<close> is written out in the type \<open>number\<close>.
\<close>

datatype number = Num real | PosInf | NegInf | NaN

text \<open>The infinity with the sign of \<open>s\<close>; \<^verbatim>\<open>NaN\<close> where IEEE 754 has no value (sign 0).\<close>

definition inf_of_sign :: "real \<Rightarrow> number" where
  "inf_of_sign s = (if s > 0 then PosInf else if s < 0 then NegInf else NaN)"

fun num_neg :: "number \<Rightarrow> number" where
  "num_neg (Num x) = Num (- x)"
| "num_neg PosInf = NegInf"
| "num_neg NegInf = PosInf"
| "num_neg NaN = NaN"

text \<open>\<^verbatim>\<open>x + y\<close>\<close>

fun num_add :: "number \<Rightarrow> number \<Rightarrow> number" where
  "num_add (Num x) (Num y) = Num (x + y)"
| "num_add NaN _ = NaN"
| "num_add _ NaN = NaN"
| "num_add PosInf NegInf = NaN"
| "num_add NegInf PosInf = NaN"
| "num_add PosInf _ = PosInf"
| "num_add NegInf _ = NegInf"
| "num_add (Num x) PosInf = PosInf"
| "num_add (Num x) NegInf = NegInf"

text \<open>\<^verbatim>\<open>x - y\<close>\<close>

definition num_sub :: "number \<Rightarrow> number \<Rightarrow> number" where
  "num_sub x y = num_add x (num_neg y)"

text \<open>\<^verbatim>\<open>x * y\<close>: an infinity times zero is \<^verbatim>\<open>NaN\<close>.\<close>

fun num_mul :: "number \<Rightarrow> number \<Rightarrow> number" where
  "num_mul (Num x) (Num y) = Num (x * y)"
| "num_mul NaN _ = NaN"
| "num_mul _ NaN = NaN"
| "num_mul PosInf (Num y) = inf_of_sign y"
| "num_mul NegInf (Num y) = inf_of_sign (- y)"
| "num_mul (Num x) PosInf = inf_of_sign x"
| "num_mul (Num x) NegInf = inf_of_sign (- x)"
| "num_mul PosInf PosInf = PosInf"
| "num_mul PosInf NegInf = NegInf"
| "num_mul NegInf PosInf = NegInf"
| "num_mul NegInf NegInf = PosInf"

text \<open>
  \<^verbatim>\<open>x / y\<close>. A finite value divided by zero takes the sign of the dividend (the zero is
  taken as \<^verbatim>\<open>+0\<close>); the program only divides by values it has made non-zero.
\<close>

fun num_div :: "number \<Rightarrow> number \<Rightarrow> number" where
  "num_div (Num x) (Num y) = (if y = 0 then inf_of_sign x else Num (x / y))"
| "num_div NaN _ = NaN"
| "num_div _ NaN = NaN"
| "num_div PosInf (Num y) = (if y < 0 then NegInf else PosInf)"
| "num_div NegInf (Num y) = (if y < 0 then PosInf else NegInf)"
| "num_div (Num x) PosInf = Num 0"
| "num_div (Num x) NegInf = Num 0"
| "num_div PosInf _ = NaN"
| "num_div NegInf _ = NaN"

text \<open>\<^verbatim>\<open>x < y\<close>, \<^verbatim>\<open>x > y\<close>, \<^verbatim>\<open>x >= y\<close>: every comparison with \<^verbatim>\<open>NaN\<close> is false.\<close>

fun num_lt :: "number \<Rightarrow> number \<Rightarrow> bool" where
  "num_lt (Num x) (Num y) = (x < y)"
| "num_lt NaN _ = False"
| "num_lt _ NaN = False"
| "num_lt _ NegInf = False"
| "num_lt PosInf _ = False"
| "num_lt NegInf _ = True"
| "num_lt (Num x) PosInf = True"

definition num_gt :: "number \<Rightarrow> number \<Rightarrow> bool" where
  "num_gt x y = num_lt y x"

definition num_ge :: "number \<Rightarrow> number \<Rightarrow> bool" where
  "num_ge x y = (x \<noteq> NaN \<and> y \<noteq> NaN \<and> (x = y \<or> num_lt y x))"

text \<open>\<^verbatim>\<open>Math.min(x, y)\<close> and \<^verbatim>\<open>Math.max(x, y)\<close>: \<^verbatim>\<open>NaN\<close> if either argument is.\<close>

definition Math_min :: "number \<Rightarrow> number \<Rightarrow> number" where
  "Math_min x y = (if x = NaN \<or> y = NaN then NaN else if num_lt y x then y else x)"

definition Math_max :: "number \<Rightarrow> number \<Rightarrow> number" where
  "Math_max x y = (if x = NaN \<or> y = NaN then NaN else if num_lt x y then y else x)"

text \<open>\<^verbatim>\<open>Math.round(x)\<close>: the nearest integer, a tie going up; not finite, unchanged.\<close>

definition Math_round_real :: "real \<Rightarrow> real" where
  "Math_round_real x = of_int \<lfloor>x + 1 / 2\<rfloor>"

fun Math_round :: "number \<Rightarrow> number" where
  "Math_round (Num x) = Num (Math_round_real x)"
| "Math_round PosInf = PosInf"
| "Math_round NegInf = NegInf"
| "Math_round NaN = NaN"

text \<open>\<^verbatim>\<open>x % y\<close> on finite numbers, \<open>y \<noteq> 0\<close>: the remainder of the truncated division.\<close>

definition js_rem :: "real \<Rightarrow> real \<Rightarrow> real" where
  "js_rem x y = x - y * of_int (if x / y < 0 then \<lceil>x / y\<rceil> else \<lfloor>x / y\<rfloor>)"

text \<open>
  \<^verbatim>\<open>Math.atan2(y, x)\<close> on finite numbers (ECMAScript, with both zeros taken as \<^verbatim>\<open>+0\<close>):
  the angle of the point \<open>(x, y)\<close> in \<open>(-\<pi>, \<pi>]\<close>, and \<open>0\<close> at the origin.
\<close>

definition atan2 :: "real \<Rightarrow> real \<Rightarrow> real" where
  "atan2 y x =
     (if x > 0 then arctan (y / x)
      else if x < 0 then (if y \<ge> 0 then arctan (y / x) + pi else arctan (y / x) - pi)
      else if y > 0 then pi / 2
      else if y < 0 then - (pi / 2)
      else 0)"

text \<open>\<^verbatim>\<open>Math.hypot(x, y)\<close>\<close>

definition hypot :: "real \<Rightarrow> real \<Rightarrow> real" where
  "hypot x y = sqrt (x\<^sup>2 + y\<^sup>2)"

section \<open>Helpers: math\<close>

text \<open>\<^verbatim>\<open>function clamp(min, x, max) { return Math.max(min, Math.min(x, max)); }\<close>\<close>

definition clamp :: "number \<Rightarrow> number \<Rightarrow> number \<Rightarrow> number" where
  "clamp lo x hi = Math_max lo (Math_min x hi)"

text \<open>\<^verbatim>\<open>const round1 = (x) => Math.round(x * 10) / 10\<close>, on a score that may not be finite.\<close>

definition round1 :: "number \<Rightarrow> number" where
  "round1 x = num_div (Math_round (num_mul x (Num 10))) (Num 10)"

text \<open>\<^verbatim>\<open>round1\<close> and \<^verbatim>\<open>round2\<close> on the finite chroma and hue.\<close>

definition round1_real :: "real \<Rightarrow> real" where
  "round1_real x = Math_round_real (x * 10) / 10"

definition round2 :: "real \<Rightarrow> real" where
  "round2 x = Math_round_real (x * 100) / 100"

section \<open>Hex strings\<close>

text \<open>
  A string is the list of its code units. \<^verbatim>\<open>throw new Error("Bad hex")\<close> is the only
  error of the program (the invalid-format error).
\<close>

datatype error = BadHex

text \<open>\<^verbatim>\<open>hex.replace(/^#/, "")\<close>: one leading \<^verbatim>\<open>#\<close> is removed.\<close>

definition stripHash :: "string \<Rightarrow> string" where
  "stripHash hex = (case hex of [] \<Rightarrow> [] | c # rest \<Rightarrow> if c = CHR ''#'' then rest else hex)"

text \<open>The white space \<^verbatim>\<open>parseInt\<close> skips, among the code units below 256.\<close>

definition isWhiteSpace :: "char \<Rightarrow> bool" where
  "isWhiteSpace c = (of_char c \<in> set [9, 10, 11, 12, 13, 32, 160 :: nat])"

definition hexDigitValue :: "char \<Rightarrow> nat option" where
  "hexDigitValue c =
     (let n = (of_char c :: nat) in
      if 48 \<le> n \<and> n \<le> 57 then Some (n - 48)
      else if 97 \<le> n \<and> n \<le> 102 then Some (n - 87)
      else if 65 \<le> n \<and> n \<le> 70 then Some (n - 55)
      else None)"

text \<open>The value of the longest prefix of hexadecimal digits, from the accumulator \<open>acc\<close>.\<close>

fun hexValue :: "nat \<Rightarrow> string \<Rightarrow> nat" where
  "hexValue acc [] = acc"
| "hexValue acc (c # cs) =
     (case hexDigitValue c of None \<Rightarrow> acc | Some d \<Rightarrow> hexValue (16 * acc + d) cs)"

text \<open>
  \<^verbatim>\<open>parseInt(h, 16)\<close> (ECMAScript): skip leading white space, take a sign, skip a
  \<^verbatim>\<open>0x\<close> or \<^verbatim>\<open>0X\<close> prefix, read the longest prefix of hexadecimal digits and ignore the
  rest; \<^verbatim>\<open>NaN\<close> (here \<open>None\<close>) when that prefix is empty.
\<close>

definition parseInt16 :: "string \<Rightarrow> int option" where
  "parseInt16 str =
     (let s1 = dropWhile isWhiteSpace str;
          sgn_rest = (case s1 of [] \<Rightarrow> (1, s1)
                      | c # rest \<Rightarrow> if c = CHR ''-'' then (- 1, rest)
                                    else if c = CHR ''+'' then (1, rest) else (1, s1));
          s2 = snd sgn_rest;
          s3 = (case s2 of
                  c0 # c1 # rest \<Rightarrow>
                    if c0 = CHR ''0'' \<and> (c1 = CHR ''x'' \<or> c1 = CHR ''X'') then rest else s2
                | _ \<Rightarrow> s2)
      in case s3 of [] \<Rightarrow> None
         | c # _ \<Rightarrow> (case hexDigitValue c of None \<Rightarrow> None
                     | Some _ \<Rightarrow> Some (fst sgn_rest * int (hexValue 0 s3))))"

text \<open>
  The operand conversion of \<^verbatim>\<open>>>\<close> and \<^verbatim>\<open>&\<close> (ToInt32): \<^verbatim>\<open>NaN\<close> becomes 0, an
  integer is reduced to 32 bits, two's complement.
\<close>

definition toInt32 :: "int option \<Rightarrow> int" where
  "toInt32 n = (case n of None \<Rightarrow> 0 | Some i \<Rightarrow> signed_take_bit 31 i)"

text \<open>
  \<^verbatim>\<open>
  function hexToRgb(hex: string) {
    const s = hex.replace(/^#/, "");
    if (s.length !== 3 && s.length !== 6) throw new Error("Bad hex");
    const h = s.length === 3 ? s.split("").map(c => c + c).join("") : s;
    const n = parseInt(h, 16);
    return { r: (n >> 16) & 255, g: (n >> 8) & 255, b: n & 255 };
  }
  \<close>
  The result \<open>{r, g, b}\<close> is the triple \<open>(r, g, b)\<close>.
\<close>

definition hexToRgb :: "string \<Rightarrow> error + (int \<times> int \<times> int)" where
  "hexToRgb hex =
     (let s = stripHash hex in
      if length s \<noteq> 3 \<and> length s \<noteq> 6 then Inl BadHex
      else
        let h = (if length s = 3 then concat (map (\<lambda>c. [c, c]) s) else s);
            n = toInt32 (parseInt16 h)
        in Inr (drop_bit 16 n AND 255, drop_bit 8 n AND 255, n AND 255))"

section \<open>Helpers: colour\<close>

record Lab =
  lab_L :: real
  lab_a :: real
  lab_b :: real

text \<open>
  \<^verbatim>\<open>
  function srgbToLinear(u8: number) {
    const v = u8 / 255;
    return v <= 0.04045 ? v / 12.92 : Math.pow((v + 0.055) / 1.055, 2.4);
  }
  \<close>
\<close>

definition srgbToLinear :: "int \<Rightarrow> real" where
  "srgbToLinear u8 =
     (let v = real_of_int u8 / 255 in
      if v \<le> 0.04045 then v / 12.92 else ((v + 0.055) / 1.055) powr 2.4)"

text \<open>\<^verbatim>\<open>rgbToXyz\<close>: the result \<open>{X, Y, Z}\<close> is the triple \<open>(X, Y, Z)\<close>.\<close>

definition rgbToXyz :: "int \<Rightarrow> int \<Rightarrow> int \<Rightarrow> real \<times> real \<times> real" where
  "rgbToXyz r8 g8 b8 =
     (let r = srgbToLinear r8;
          g = srgbToLinear g8;
          b = srgbToLinear b8;
          X = 0.4124564 * r + 0.3575761 * g + 0.1804375 * b;
          Y = 0.2126729 * r + 0.7151522 * g + 0.0721750 * b;
          Z = 0.0193339 * r + 0.1191920 * g + 0.9503041 * b
      in (X, Y, Z))"

text \<open>
  \<^verbatim>\<open>
  function f(t: number) {
    const eps = Math.pow(6 / 29, 3);
    const k = Math.pow(29 / 3, 2) / 3;
    return t > eps ? Math.cbrt(t) : k * t + 4 / 29;
  }
  \<close>
\<close>

definition f :: "real \<Rightarrow> real" where
  "f t =
     (let eps = (6 / 29) ^ 3;
          k = (29 / 3) ^ 2 / 3
      in if t > eps then root 3 t else k * t + 4 / 29)"

definition xyzToLab :: "real \<Rightarrow> real \<Rightarrow> real \<Rightarrow> Lab" where
  "xyzToLab X Y Z =
     (let Xn = 0.95047; Yn = 1.0; Zn = 1.08883;
          fx = f (X / Xn); fy = f (Y / Yn); fz = f (Z / Zn)
      in \<lparr>lab_L = 116 * fy - 16, lab_a = 500 * (fx - fy), lab_b = 200 * (fy - fz)\<rparr>)"

definition rgbToLab :: "int \<Rightarrow> int \<Rightarrow> int \<Rightarrow> Lab" where
  "rgbToLab r g b = (case rgbToXyz r g b of (X, Y, Z) \<Rightarrow> xyzToLab X Y Z)"

text \<open>
  \<^verbatim>\<open>
  function labHue({ a, b }: Lab) {
    const h = Math.atan2(b, a) * (180 / Math.PI);
    return h < 0 ? h + 360 : h;
  }
  \<close>
\<close>

definition labHue :: "Lab \<Rightarrow> real" where
  "labHue lab =
     (let h = atan2 (lab_b lab) (lab_a lab) * (180 / pi) in
      if h < 0 then h + 360 else h)"

section \<open>Profiles and results\<close>

text \<open>
  The types of the evaluator. Field names that would clash with each other or with a
  constant of HOL carry a prefix: \<open>rule_min\<close>, \<open>rule_max\<close>, \<open>rule_weight\<close> are
  \<^verbatim>\<open>RangeRule\<close>'s \<^verbatim>\<open>min\<close>, \<^verbatim>\<open>max\<close>, \<^verbatim>\<open>weight\<close>; \<open>hue_weight\<close> is
  \<^verbatim>\<open>HueSectorsRule\<close>'s \<^verbatim>\<open>weight\<close>; \<open>bucket_label\<close> is \<^verbatim>\<open>MatchBucket\<close>'s
  \<^verbatim>\<open>label\<close>; \<open>res_chroma\<close> and \<open>res_notes\<close> are \<^verbatim>\<open>ToneResult\<close>'s
  \<^verbatim>\<open>chroma\<close> and \<^verbatim>\<open>notes\<close>. The optional
  \<^verbatim>\<open>warmthPenalty\<close> is an \<open>option\<close>.
\<close>

record RangeRule =
  rule_min :: real
  rule_max :: real
  rule_weight :: real

record HueSectorsRule =
  sectors :: "(real \<times> real) list"
  toleranceDegrees :: real
  hue_weight :: real

record WarmthPenaltyRule =
  lab_b_gt :: real
  penalty :: real

record MatchBucket =
  minScore :: real
  bucket_label :: string

record ToneProfile =
  label :: string
  lightness :: RangeRule
  chroma :: RangeRule
  hueSectors :: HueSectorsRule
  warmthPenalty :: "WarmthPenaltyRule option"
  matchBuckets :: "MatchBucket list"

record ToneResult =
  input :: string
  toneLabel :: string
  lab :: Lab
  res_chroma :: real
  hue :: real
  score :: number
  matchLevel :: string
  res_notes :: "string list"

section \<open>Penalties\<close>

text \<open>
  \<^verbatim>\<open>
  function rangePenalty(value: number, rule: RangeRule) {
    const { min, max, weight } = rule;
    if (value >= min && value <= max) return 0;
    const dist = value < min ? (min - value) : (value - max);
    const half = (max - min) / 2 || 1;
    return Math.min((dist / half) * weight, weight);
  }
  \<close>
  \<open>half\<close> is never zero, so the result is finite.
\<close>

definition rangePenalty :: "real \<Rightarrow> RangeRule \<Rightarrow> real" where
  "rangePenalty v rule =
     (let mn = rule_min rule; mx = rule_max rule; weight = rule_weight rule in
      if v \<ge> mn \<and> v \<le> mx then 0
      else
        let dist = (if v < mn then mn - v else v - mx);
            half = (if (mx - mn) / 2 = 0 then 1 else (mx - mn) / 2)
        in min ((dist / half) * weight) weight)"

text \<open>
  \<^verbatim>\<open>
  function inSector(h: number, a: number, b: number) {
    return a <= b ? h >= a && h <= b : h >= a || h <= b; // handles wrap-around
  }
  \<close>
\<close>

definition inSector :: "real \<Rightarrow> real \<Rightarrow> real \<Rightarrow> bool" where
  "inSector h a b = (if a \<le> b then h \<ge> a \<and> h \<le> b else h \<ge> a \<or> h \<le> b)"

text \<open>
  The inner function \<^verbatim>\<open>d\<close> of \<^verbatim>\<open>degToEdgeDistance\<close>:
  \<^verbatim>\<open>
  const d = (x: number, y: number) => {
    const dd = Math.abs(x - y) % 360;
    return dd > 180 ? 360 - dd : dd;
  };
  \<close>
\<close>

definition circDist :: "real \<Rightarrow> real \<Rightarrow> real" where
  "circDist x y = (let dd = js_rem \<bar>x - y\<bar> 360 in if dd > 180 then 360 - dd else dd)"

definition degToEdgeDistance :: "real \<Rightarrow> real \<Rightarrow> real \<Rightarrow> real" where
  "degToEdgeDistance h a b = min (circDist h a) (circDist h b)"

text \<open>
  \<^verbatim>\<open>
  function hueSectorDistance(h: number, sectors: Array<[number, number]>) {
    let best = Infinity;
    for (const [a, b] of sectors) {
      if (inSector(h, a, b)) return 0;
      best = Math.min(best, degToEdgeDistance(h, a, b));
    }
    return best;
  }
  \<close>
  The loop, from the sectors still to visit and the current \<open>best\<close>.
\<close>

fun hueSectorLoop :: "real \<Rightarrow> (real \<times> real) list \<Rightarrow> number \<Rightarrow> number" where
  "hueSectorLoop h [] best = best"
| "hueSectorLoop h ((a, b) # rest) best =
     (if inSector h a b then Num 0
      else hueSectorLoop h rest (Math_min best (Num (degToEdgeDistance h a b))))"

definition hueSectorDistance :: "real \<Rightarrow> (real \<times> real) list \<Rightarrow> number" where
  "hueSectorDistance h secs = hueSectorLoop h secs PosInf"

section \<open>The evaluator\<close>

text \<open>
  The body of \<^verbatim>\<open>evaluateTone\<close> updates two locals, \<^verbatim>\<open>penalty\<close> and \<^verbatim>\<open>notes\<close>, in four
  blocks; each block is a function on the pair \<open>(penalty, notes)\<close>.

  Lightness and chroma are the same block, on another value, rule and pair of notes:
  \<^verbatim>\<open>
  penalty += rangePenalty(L, profile.lightness);
  if (L < profile.lightness.min) notes.push("too dark for this tone");
  if (L > profile.lightness.max) notes.push("too light/washed");
  \<close>
\<close>

definition rangeBlock ::
  "real \<Rightarrow> RangeRule \<Rightarrow> string \<Rightarrow> string \<Rightarrow> number \<times> string list \<Rightarrow> number \<times> string list"
where
  "rangeBlock v rule lowNote highNote st =
     (let pen = num_add (fst st) (Num (rangePenalty v rule));
          notes1 = (if v < rule_min rule then snd st @ [lowNote] else snd st);
          notes2 = (if v > rule_max rule then notes1 @ [highNote] else notes1)
      in (pen, notes2))"

text \<open>
  \<^verbatim>\<open>
  const d = hueSectorDistance(H, profile.hueSectors.sectors);
  const t = profile.hueSectors.toleranceDegrees || 60;
  const frac = Math.min(d / t, 1);
  const huePenaltyPts = frac * profile.hueSectors.weight;
  \<close>
\<close>

definition huePenaltyPts :: "real \<Rightarrow> HueSectorsRule \<Rightarrow> number" where
  "huePenaltyPts H rule =
     (let d = hueSectorDistance H (sectors rule);
          t = (if toleranceDegrees rule = 0 then 60 else toleranceDegrees rule);
          frac = Math_min (num_div d (Num t)) (Num 1)
      in num_mul frac (Num (hue_weight rule)))"

text \<open>
  \<^verbatim>\<open>
  penalty += huePenaltyPts;
  if (d > 0) notes.push("leans outside cool hue sectors");
  \<close>
\<close>

definition hueBlock ::
  "real \<Rightarrow> HueSectorsRule \<Rightarrow> number \<times> string list \<Rightarrow> number \<times> string list"
where
  "hueBlock H rule st =
     (let d = hueSectorDistance H (sectors rule);
          pen = num_add (fst st) (huePenaltyPts H rule)
      in (pen, if num_gt d (Num 0) then snd st @ [''leans outside cool hue sectors'']
               else snd st))"

text \<open>
  \<^verbatim>\<open>
  if (profile.warmthPenalty && lab.b > profile.warmthPenalty.lab_b_gt) {
    penalty += profile.warmthPenalty.penalty;
    notes.push("yellow warmth present");
  }
  \<close>
\<close>

definition warmthBlock ::
  "Lab \<Rightarrow> WarmthPenaltyRule option \<Rightarrow> number \<times> string list \<Rightarrow> number \<times> string list"
where
  "warmthBlock lb rule st =
     (case rule of
        None \<Rightarrow> st
      | Some w \<Rightarrow>
          if lab_b lb > lab_b_gt w
          then (num_add (fst st) (Num (penalty w)), snd st @ [''yellow warmth present''])
          else st)"

text \<open>
  The locals \<^verbatim>\<open>penalty\<close> and \<^verbatim>\<open>notes\<close> after the four blocks, from \<^verbatim>\<open>penalty = 0\<close>
  and \<^verbatim>\<open>notes = []\<close>, for the colour \<open>lb\<close>.
\<close>

definition penaltyAndNotes :: "Lab \<Rightarrow> ToneProfile \<Rightarrow> number \<times> string list" where
  "penaltyAndNotes lb profile =
     (let L = lab_L lb;
          C = hypot (lab_a lb) (lab_b lb);
          H = labHue lb
      in warmthBlock lb (warmthPenalty profile)
           (hueBlock H (hueSectors profile)
              (rangeBlock C (chroma profile) ''too gray/soft'' ''too saturated/bright''
                 (rangeBlock L (lightness profile) ''too dark for this tone'' ''too light/washed''
                    (Num 0, [])))))"

text \<open>\<^verbatim>\<open>const score = clamp(0, 100 - penalty, 100);\<close>\<close>

definition scoreOf :: "number \<Rightarrow> number" where
  "scoreOf pen = clamp (Num 0) (num_sub (Num 100) pen) (Num 100)"

text \<open>
  \<^verbatim>\<open>profile.matchBuckets.sort((a, b) => b.minScore - a.minScore)\<close>: the array sorted by
  descending \<^verbatim>\<open>minScore\<close>, buckets of equal \<^verbatim>\<open>minScore\<close> keeping their order
  (\<^verbatim>\<open>Array.prototype.sort\<close> is stable). \<^verbatim>\<open>sort\<close> sorts the array in place and returns
  it: the result is also the new content of \<^verbatim>\<open>profile.matchBuckets\<close>.
\<close>

definition sortBuckets :: "MatchBucket list \<Rightarrow> MatchBucket list" where
  "sortBuckets bs = sort_key (\<lambda>b. - minScore b) bs"

text \<open>\<^verbatim>\<open>.find(b => score >= b.minScore)?.label ?? "not a match"\<close>\<close>

definition pickLabel :: "number \<Rightarrow> MatchBucket list \<Rightarrow> string" where
  "pickLabel sc bs =
     (case find (\<lambda>b. num_ge sc (Num (minScore b))) bs of
        Some b \<Rightarrow> bucket_label b
      | None \<Rightarrow> ''not a match'')"

text \<open>
  \<^verbatim>\<open>evaluateTone(hex, profile)\<close>. The result is the error thrown, or the \<^verbatim>\<open>ToneResult\<close>
  returned together with the caller's profile object as the call leaves it.
\<close>

definition evaluateTone :: "string \<Rightarrow> ToneProfile \<Rightarrow> error + (ToneResult \<times> ToneProfile)" where
  "evaluateTone hex profile =
     (case hexToRgb hex of
        Inl e \<Rightarrow> Inl e
      | Inr (r, g, b) \<Rightarrow>
          let lb = rgbToLab r g b;
              C = hypot (lab_a lb) (lab_b lb);
              H = labHue lb;
              pn = penaltyAndNotes lb profile;
              sc = scoreOf (fst pn);
              sorted = sortBuckets (matchBuckets profile);
              level = pickLabel sc sorted
          in Inr (\<lparr>input = hex,
                    toneLabel = label profile,
                    lab = lb,
                    res_chroma = round2 C,
                    hue = round1_real H,
                    score = round1 sc,
                    matchLevel = level,
                    res_notes = snd pn\<rparr>,
                  profile\<lparr>matchBuckets := sorted\<rparr>))"

section \<open>The ramp in the specification's words\<close>

text \<open>
  The range penalty as the specification words it, to compare \<open>rangePenalty\<close> with:
  0 when \<open>min \<le> value \<le> max\<close>, and otherwise
  \<^verbatim>\<open>min(distance_to_nearest_bound / max((max-min)/2, 1), 1) * weight\<close>, the distance being
  \<open>min - value\<close> when \<open>value < min\<close> and \<open>value - max\<close> when \<open>value > max\<close>.
\<close>

definition rangePenalty_spec :: "real \<Rightarrow> RangeRule \<Rightarrow> real" where
  "rangePenalty_spec v rule =
     (let mn = rule_min rule; mx = rule_max rule; weight = rule_weight rule in
      if mn \<le> v \<and> v \<le> mx then 0
      else
        let distance_to_nearest_bound = (if v < mn then mn - v else v - mx)
        in min (distance_to_nearest_bound / max ((mx - mn) / 2) 1) 1 * weight)"

section \<open>Sample inputs\<close>

text \<open>
  A profile to evaluate the functions at. Its buckets are listed by ascending
  \<^verbatim>\<open>minScore\<close>. For black (\<open>L = 0\<close>, chroma 0, hue 0) the lightness rule gives 30
  points, the chroma rule 10 and the hue rule 30.
\<close>

abbreviation sample_profile :: ToneProfile where
  "sample_profile \<equiv>
     \<lparr>label = ''Summer'',
      lightness = \<lparr>rule_min = 40, rule_max = 60, rule_weight = 30\<rparr>,
      chroma = \<lparr>rule_min = 10, rule_max = 40, rule_weight = 15\<rparr>,
      hueSectors = \<lparr>sectors = [(180, 300)], toleranceDegrees = 60, hue_weight = 30\<rparr>,
      warmthPenalty = Some \<lparr>lab_b_gt = 15, penalty = 10\<rparr>,
      matchBuckets = [\<lparr>minScore = 0, bucket_label = ''Poor''\<rparr>,
                      \<lparr>minScore = 70, bucket_label = ''Good''\<rparr>,
                      \<lparr>minScore = 90, bucket_label = ''Perfect''\<rparr>]\<rparr>"

text \<open>
  The sample profile with a hue rule that has no sector, a negative tolerance and the
  weight 0.
\<close>

abbreviation degenerate_profile :: ToneProfile where
  "degenerate_profile \<equiv>
     \<lparr>label = ''Summer'',
      lightness = \<lparr>rule_min = 40, rule_max = 60, rule_weight = 30\<rparr>,
      chroma = \<lparr>rule_min = 10, rule_max = 40, rule_weight = 15\<rparr>,
      hueSectors = \<lparr>sectors = [], toleranceDegrees = - 1, hue_weight = 0\<rparr>,
      warmthPenalty = Some \<lparr>lab_b_gt = 15, penalty = 10\<rparr>,
      matchBuckets = [\<lparr>minScore = 0, bucket_label = ''Poor''\<rparr>,
                      \<lparr>minScore = 70, bucket_label = ''Good''\<rparr>,
                      \<lparr>minScore = 90, bucket_label = ''Perfect''\<rparr>]\<rparr>"

text \<open>A profile whose hue rule has no sector, and no buckets.\<close>

abbreviation no_sector_profile :: ToneProfile where
  "no_sector_profile \<equiv>
     \<lparr>label = ''Summer'',
      lightness = \<lparr>rule_min = 40, rule_max = 60, rule_weight = 30\<rparr>,
      chroma = \<lparr>rule_min = 10, rule_max = 40, rule_weight = 15\<rparr>,
      hueSectors = \<lparr>sectors = [], toleranceDegrees = 60, hue_weight = 30\<rparr>,
      warmthPenalty = None,
      matchBuckets = []\<rparr>"

section \<open>Evaluation at black\<close>

lemma parseInt16_black: "parseInt16 ''000000'' = Some 0"
  by (simp add: parseInt16_def isWhiteSpace_def hexDigitValue_def)

lemma hexToRgb_black: "hexToRgb ''#000000'' = Inr (0, 0, 0)"
  by (simp add: hexToRgb_def stripHash_def toInt32_def parseInt16_black)

lemma rgbToLab_black: "rgbToLab 0 0 0 = \<lparr>lab_L = 0, lab_a = 0, lab_b = 0\<rparr>"
  by (simp add: rgbToLab_def rgbToXyz_def srgbToLinear_def xyzToLab_def f_def)

lemma labHue_origin: "labHue \<lparr>lab_L = l, lab_a = 0, lab_b = 0\<rparr> = 0"
  by (simp add: labHue_def atan2_def)

lemma hypot_origin: "hypot 0 0 = 0"
  by (simp add: hypot_def)

lemma js_rem_small:
  assumes "0 \<le> x" and "x < y"
  shows "js_rem x y = x"
proof -
  have "0 \<le> x / y" and "x / y < 1" using assms by simp_all
  then have "\<lfloor>x / y\<rfloor> = 0" by linarith
  with \<open>0 \<le> x / y\<close> show ?thesis by (simp add: js_rem_def)
qed

lemma penaltyAndNotes_black_sample:
  "penaltyAndNotes \<lparr>lab_L = 0, lab_a = 0, lab_b = 0\<rparr> sample_profile =
     (Num 70, [''too dark for this tone'', ''too gray/soft'', ''leans outside cool hue sectors''])"
  by (simp add: penaltyAndNotes_def labHue_origin hypot_origin rangeBlock_def rangePenalty_def
      hueBlock_def huePenaltyPts_def hueSectorDistance_def inSector_def degToEdgeDistance_def
      circDist_def js_rem_small Math_min_def num_gt_def warmthBlock_def)

lemma scoreOf_70: "scoreOf (Num 70) = Num 30"
  by (simp add: scoreOf_def clamp_def Math_min_def Math_max_def num_sub_def)

lemma evaluateTone_black_sample:
  "evaluateTone ''#000000'' sample_profile =
     Inr (\<lparr>input = ''#000000'', toneLabel = ''Summer'',
           lab = \<lparr>lab_L = 0, lab_a = 0, lab_b = 0\<rparr>, res_chroma = 0, hue = 0,
           score = Num 30, matchLevel = ''Poor'',
           res_notes = [''too dark for this tone'', ''too gray/soft'',
                        ''leans outside cool hue sectors'']\<rparr>,
          sample_profile\<lparr>matchBuckets :=
            [\<lparr>minScore = 90, bucket_label = ''Perfect''\<rparr>,
             \<lparr>minScore = 70, bucket_label = ''Good''\<rparr>,
             \<lparr>minScore = 0, bucket_label = ''Poor''\<rparr>]\<rparr>)"
  by (simp add: evaluateTone_def hexToRgb_black rgbToLab_black penaltyAndNotes_black_sample
      scoreOf_70 labHue_origin hypot_origin sortBuckets_def pickLabel_def num_ge_def round1_def
      round2_def round1_real_def Math_round_real_def)

section \<open>The result of a call\<close>

lemma hexToRgb_Inl_iff:
  "hexToRgb hex = Inl e \<longleftrightarrow> length (stripHash hex) \<noteq> 3 \<and> length (stripHash hex) \<noteq> 6"
  by (cases e) (auto simp: hexToRgb_def Let_def)

lemma evaluateTone_Inl_iff: "evaluateTone hex profile = Inl e \<longleftrightarrow> hexToRgb hex = Inl e"
  by (simp add: evaluateTone_def Let_def split: sum.splits prod.splits)

lemma evaluateTone_Inr:
  assumes "hexToRgb hex = Inr (r, g, b)"
  shows "evaluateTone hex profile =
     Inr (\<lparr>input = hex, toneLabel = label profile, lab = rgbToLab r g b,
           res_chroma = round2 (hypot (lab_a (rgbToLab r g b)) (lab_b (rgbToLab r g b))),
           hue = round1_real (labHue (rgbToLab r g b)),
           score = round1 (scoreOf (fst (penaltyAndNotes (rgbToLab r g b) profile))),
           matchLevel = pickLabel (scoreOf (fst (penaltyAndNotes (rgbToLab r g b) profile)))
                          (sortBuckets (matchBuckets profile)),
           res_notes = snd (penaltyAndNotes (rgbToLab r g b) profile)\<rparr>,
          profile\<lparr>matchBuckets := sortBuckets (matchBuckets profile)\<rparr>)"
  using assms by (simp add: evaluateTone_def Let_def)

lemma evaluateTone_Inr_fields:
  assumes "evaluateTone hex profile = Inr (res, profile')"
  shows "score res = round1 (scoreOf (fst (penaltyAndNotes (lab res) profile)))"
    and "matchLevel res = pickLabel (scoreOf (fst (penaltyAndNotes (lab res) profile)))
                            (sortBuckets (matchBuckets profile))"
    and "res_notes res = snd (penaltyAndNotes (lab res) profile)"
    and "profile' = profile\<lparr>matchBuckets := sortBuckets (matchBuckets profile)\<rparr>"
  using assms by (auto simp: evaluateTone_def Let_def split: sum.splits prod.splits)

section \<open>Malformed input\<close>

text \<open>
  C1, as the code has it: \<^verbatim>\<open>hexToRgb\<close>, and with it \<^verbatim>\<open>evaluateTone\<close>, fails with the
  bad-hex error exactly when the length of the input, after one leading \<^verbatim>\<open>#\<close> is
  stripped, is neither 3 nor 6. The characters are not looked at: \<^verbatim>\<open>"#12345"\<close> fails, and
  \<^verbatim>\<open>"red"\<close>, of length 3, is accepted and read as black, \<^verbatim>\<open>parseInt\<close> giving \<^verbatim>\<open>NaN\<close>
  and the bit operations turning that into 0.
\<close>

theorem hexToRgb_fails_iff_length:
  "(hexToRgb hex = Inl BadHex \<longleftrightarrow>
      length (stripHash hex) \<noteq> 3 \<and> length (stripHash hex) \<noteq> 6)
   \<and> (evaluateTone hex profile = Inl BadHex \<longleftrightarrow>
      length (stripHash hex) \<noteq> 3 \<and> length (stripHash hex) \<noteq> 6)
   \<and> evaluateTone ''#12345'' profile = Inl BadHex
   \<and> hexToRgb ''red'' = Inr (0, 0, 0)"
proof -
  have "parseInt16 ''rreedd'' = None"
    by (simp add: parseInt16_def isWhiteSpace_def hexDigitValue_def)
  then have "hexToRgb ''red'' = Inr (0, 0, 0)"
    by (simp add: hexToRgb_def stripHash_def toInt32_def)
  moreover have "evaluateTone ''#12345'' profile = Inl BadHex"
    by (simp add: evaluateTone_Inl_iff hexToRgb_Inl_iff stripHash_def)
  ultimately show ?thesis
    by (simp add: evaluateTone_Inl_iff hexToRgb_Inl_iff)
qed

text \<open>
  C1 as stated fails: \<^verbatim>\<open>evaluateTone("red", profile)\<close> does not fail with the bad-hex
  error, although \<^verbatim>\<open>r\<close> is not a hexadecimal digit.
\<close>

theorem evaluateTone_red_succeeds:
  "hexToRgb ''red'' \<noteq> Inl BadHex \<and> evaluateTone ''red'' sample_profile \<noteq> Inl BadHex"
  by (simp add: evaluateTone_Inl_iff hexToRgb_Inl_iff stripHash_def)

section \<open>The caller's profile\<close>

text \<open>
  C2 says that \<^verbatim>\<open>evaluateTone\<close> leaves the caller's profile unchanged, the order of
  \<^verbatim>\<open>matchBuckets\<close> included. The code sorts \<^verbatim>\<open>profile.matchBuckets\<close> itself: after the
  call on \<^verbatim>\<open>"#000000"\<close> and the sample profile, whose buckets are Poor, Good, Perfect, the
  profile's buckets are Perfect, Good, Poor, and the profile is not the one passed in.
\<close>

theorem evaluateTone_reorders_matchBuckets:
  "map_sum id (matchBuckets \<circ> snd) (evaluateTone ''#000000'' sample_profile) =
     Inr [\<lparr>minScore = 90, bucket_label = ''Perfect''\<rparr>,
          \<lparr>minScore = 70, bucket_label = ''Good''\<rparr>,
          \<lparr>minScore = 0, bucket_label = ''Poor''\<rparr>]
   \<and> map_sum id snd (evaluateTone ''#000000'' sample_profile) \<noteq> Inr sample_profile"
  by (simp add: evaluateTone_black_sample)

section \<open>Black\<close>

text \<open>
  C8: \<^verbatim>\<open>"#000000"\<close> is read as \<open>r = g = b = 0\<close> and converted to the Lab colour
  \<open>L = 0, a = 0, b = 0\<close>; its chroma is 0 and, \<^verbatim>\<open>Math.atan2(0, 0)\<close> being 0, its hue is 0.
  \<^verbatim>\<open>evaluateTone\<close> reports that colour, chroma 0 and hue 0 for every profile, so for every
  hue-sector rule.
\<close>

theorem black_is_origin:
  "hexToRgb ''#000000'' = Inr (0, 0, 0)
   \<and> rgbToLab 0 0 0 = \<lparr>lab_L = 0, lab_a = 0, lab_b = 0\<rparr>
   \<and> atan2 0 0 = 0
   \<and> (\<exists>res profile'. evaluateTone ''#000000'' profile = Inr (res, profile')
        \<and> lab res = \<lparr>lab_L = 0, lab_a = 0, lab_b = 0\<rparr>
        \<and> hypot (lab_a (lab res)) (lab_b (lab res)) = 0 \<and> res_chroma res = 0
        \<and> labHue (lab res) = 0 \<and> hue res = 0)"
  by (simp add: evaluateTone_Inr [OF hexToRgb_black] hexToRgb_black rgbToLab_black atan2_def
      hypot_origin labHue_origin round2_def round1_real_def Math_round_real_def)

section \<open>The range penalty\<close>

lemma min_scaled:
  fixes q w :: real
  assumes "0 \<le> w"
  shows "min (q * w) w = min q 1 * w"
proof (cases "q \<le> 1")
  case True
  then have "q * w \<le> 1 * w" using assms by (intro mult_right_mono)
  then have "q * w \<le> w" by simp
  with True show ?thesis by (simp add: min_def)
next
  case False
  then have "1 * w \<le> q * w" using assms by (intro mult_right_mono) simp_all
  then have "w \<le> q * w" by simp
  with False show ?thesis by (simp add: min_def)
qed

lemma rangePenalty_inside:
  "rule_min rule \<le> v \<Longrightarrow> v \<le> rule_max rule \<Longrightarrow> rangePenalty v rule = 0"
  by (simp add: rangePenalty_def)

lemma rangePenalty_above:
  assumes "rule_min rule \<le> rule_max rule" and "0 \<le> rule_weight rule" and "0 \<le> dl"
  shows "rangePenalty (rule_max rule + dl) rule =
     min (dl / (if rule_max rule = rule_min rule then 1
                else (rule_max rule - rule_min rule) / 2)) 1 * rule_weight rule"
proof (cases "dl = 0")
  case True
  with assms show ?thesis by (simp add: rangePenalty_def)
next
  case False
  with assms have "\<not> rule_max rule + dl \<le> rule_max rule"
    and "\<not> rule_max rule + dl < rule_min rule" by simp_all
  then show ?thesis
    by (simp add: rangePenalty_def Let_def min_scaled [OF assms(2), symmetric])
qed

lemma rangePenalty_below:
  assumes "rule_min rule \<le> rule_max rule" and "0 \<le> rule_weight rule" and "0 \<le> dl"
  shows "rangePenalty (rule_min rule - dl) rule =
     min (dl / (if rule_max rule = rule_min rule then 1
                else (rule_max rule - rule_min rule) / 2)) 1 * rule_weight rule"
proof (cases "dl = 0")
  case True
  with assms show ?thesis by (simp add: rangePenalty_def)
next
  case False
  with assms have "\<not> rule_min rule \<le> rule_min rule - dl"
    and "rule_min rule - dl < rule_min rule" by simp_all
  then show ?thesis
    by (simp add: rangePenalty_def Let_def min_scaled [OF assms(2), symmetric])
qed

lemma ramp_mono:
  fixes h w :: real
  assumes "0 < h" and "0 \<le> w" and "dl \<le> dl'"
  shows "min (dl / h) 1 * w \<le> min (dl' / h) 1 * w"
proof -
  have "dl / h \<le> dl' / h" using assms by (simp add: divide_right_mono)
  then have "min (dl / h) 1 \<le> min (dl' / h) 1" by (simp add: min_def)
  then show ?thesis using assms(2) by (simp add: mult_right_mono)
qed

lemma ramp_strict:
  fixes h w :: real
  assumes "0 < h" and "0 < w" and "dl < dl'" and "dl' \<le> h"
  shows "min (dl / h) 1 * w < min (dl' / h) 1 * w"
proof -
  have "dl / h < dl' / h" using assms by (simp add: divide_strict_right_mono)
  moreover have "dl' / h \<le> 1" using assms by simp
  ultimately have "min (dl / h) 1 < min (dl' / h) 1" by (simp add: min_def)
  then show ?thesis using assms(2) by simp
qed

lemma ramp_cap:
  fixes h w :: real
  assumes "0 < h" and "h \<le> dl"
  shows "min (dl / h) 1 * w = w"
proof -
  have "1 \<le> dl / h" using assms by simp
  then show ?thesis by (simp add: min_def)
qed

text \<open>
  C3, as the code has it. The range penalty is 0 when \<open>min \<le> value \<le> max\<close>, and otherwise
  \<^verbatim>\<open>min(dist / half * weight, weight)\<close>, where \<open>dist\<close> is \<open>min - value\<close> when
  \<open>value < min\<close> and \<open>value - max\<close> otherwise, and \<open>half\<close> is \<open>(max - min) / 2\<close> when
  that is not zero and 1 when it is zero. When \<open>weight \<ge> 0\<close> that is
  \<^verbatim>\<open>min(dist / half, 1) * weight\<close>. It is the formula of the specification, with the
  divisor \<^verbatim>\<open>max((max-min)/2, 1)\<close>, for the rules with \<open>weight \<ge> 0\<close> whose \<open>half\<close> is that
  maximum: an interval of width zero, or of width 2 or more.
\<close>

theorem rangePenalty_formula:
  fixes v :: real and rule :: RangeRule
  defines "gap \<equiv> (if v < rule_min rule then rule_min rule - v else v - rule_max rule)"
    and "half \<equiv> (if (rule_max rule - rule_min rule) / 2 = 0 then 1
                   else (rule_max rule - rule_min rule) / 2)"
  shows "rangePenalty v rule =
           (if rule_min rule \<le> v \<and> v \<le> rule_max rule then 0
            else min (gap / half * rule_weight rule) (rule_weight rule))
    \<and> (0 \<le> rule_weight rule \<longrightarrow>
         rangePenalty v rule =
           (if rule_min rule \<le> v \<and> v \<le> rule_max rule then 0
            else min (gap / half) 1 * rule_weight rule))
    \<and> (0 \<le> rule_weight rule \<and> half = max ((rule_max rule - rule_min rule) / 2) 1 \<longrightarrow>
         rangePenalty v rule = rangePenalty_spec v rule)"
proof -
  have code: "rangePenalty v rule =
           (if rule_min rule \<le> v \<and> v \<le> rule_max rule then 0
            else min (gap / half * rule_weight rule) (rule_weight rule))"
    by (simp add: rangePenalty_def gap_def half_def Let_def)
  have ramp: "rangePenalty v rule =
           (if rule_min rule \<le> v \<and> v \<le> rule_max rule then 0
            else min (gap / half) 1 * rule_weight rule)" if "0 \<le> rule_weight rule"
    by (simp add: code min_scaled [OF that, symmetric])
  have spec: "rangePenalty v rule = rangePenalty_spec v rule"
    if "0 \<le> rule_weight rule" and "half = max ((rule_max rule - rule_min rule) / 2) 1"
    using that(2) by (simp add: ramp [OF that(1)] rangePenalty_spec_def Let_def gap_def)
  from code ramp spec show ?thesis by blast
qed

theorem rangePenalty_formula_witness:
  "rangePenalty (5 / 4) \<lparr>rule_min = 0, rule_max = 1, rule_weight = 10\<rparr> = min ((1 / 4) / (1 / 2)) 1 * 10
   \<and> rangePenalty 100 \<lparr>rule_min = 40, rule_max = 60, rule_weight = 30\<rparr> =
       rangePenalty_spec 100 \<lparr>rule_min = 40, rule_max = 60, rule_weight = 30\<rparr>
   \<and> rangePenalty_spec 100 \<lparr>rule_min = 40, rule_max = 60, rule_weight = 30\<rparr> = 30"
  using rangePenalty_formula [of "5 / 4" "\<lparr>rule_min = 0, rule_max = 1, rule_weight = 10\<rparr>"]
    rangePenalty_formula [of 100 "\<lparr>rule_min = 40, rule_max = 60, rule_weight = 30\<rparr>"]
  by (simp add: rangePenalty_spec_def)

text \<open>
  C3 as stated fails for an interval narrower than 2: for the rule \<open>min = 0\<close>, \<open>max = 1\<close>,
  \<open>weight = 10\<close> and the value 1.25 the code divides the distance 0.25 by 0.5 and returns
  5, and the formula of the claim divides by \<^verbatim>\<open>max(0.5, 1)\<close> and gives 2.5.
\<close>

theorem rangePenalty_differs_from_max_formula:
  "rangePenalty (5 / 4) \<lparr>rule_min = 0, rule_max = 1, rule_weight = 10\<rparr> = 5
   \<and> rangePenalty_spec (5 / 4) \<lparr>rule_min = 0, rule_max = 1, rule_weight = 10\<rparr> = 5 / 2"
  by (simp add: rangePenalty_def rangePenalty_spec_def)

text \<open>
  C7, as the code has it. For a rule with \<open>min \<le> max\<close> and \<open>weight \<ge> 0\<close>, let \<open>cap\<close> be
  half the width of the interval, \<open>(max - min) / 2\<close>, when \<open>min < max\<close>, and 1 when
  \<open>min = max\<close>. The penalty is 0 inside \<open>[min, max]\<close>; at the distance \<open>dl\<close> above \<open>max\<close>
  or below \<open>min\<close> it does not decrease when \<open>dl\<close> grows; it increases strictly with \<open>dl\<close>
  up to \<open>cap\<close> when \<open>weight > 0\<close>; and it is exactly \<open>weight\<close> once \<open>dl \<ge> cap\<close>.
\<close>

theorem rangePenalty_monotone_capped:
  fixes rule :: RangeRule and v dl dl' :: real
  assumes "rule_min rule \<le> rule_max rule" and "0 \<le> rule_weight rule"
  defines "cap \<equiv> (if rule_max rule = rule_min rule then 1
                   else (rule_max rule - rule_min rule) / 2)"
  shows "(rule_min rule \<le> v \<and> v \<le> rule_max rule \<longrightarrow> rangePenalty v rule = 0)
    \<and> (0 \<le> dl \<and> dl \<le> dl' \<longrightarrow>
         rangePenalty (rule_max rule + dl) rule \<le> rangePenalty (rule_max rule + dl') rule
         \<and> rangePenalty (rule_min rule - dl) rule \<le> rangePenalty (rule_min rule - dl') rule)
    \<and> (0 < rule_weight rule \<and> 0 \<le> dl \<and> dl < dl' \<and> dl' \<le> cap \<longrightarrow>
         rangePenalty (rule_max rule + dl) rule < rangePenalty (rule_max rule + dl') rule
         \<and> rangePenalty (rule_min rule - dl) rule < rangePenalty (rule_min rule - dl') rule)
    \<and> (cap \<le> dl \<longrightarrow>
         rangePenalty (rule_max rule + dl) rule = rule_weight rule
         \<and> rangePenalty (rule_min rule - dl) rule = rule_weight rule)"
proof -
  have pos: "0 < cap" using assms(1) by (simp add: cap_def)
  have above: "rangePenalty (rule_max rule + x) rule = min (x / cap) 1 * rule_weight rule"
    and below: "rangePenalty (rule_min rule - x) rule = min (x / cap) 1 * rule_weight rule"
    if "0 \<le> x" for x
    using rangePenalty_above [OF assms(1,2) that] rangePenalty_below [OF assms(1,2) that]
    by (simp_all add: cap_def)
  have inside: "rule_min rule \<le> v \<and> v \<le> rule_max rule \<longrightarrow> rangePenalty v rule = 0"
    by (simp add: rangePenalty_inside)
  have mono: "0 \<le> dl \<and> dl \<le> dl' \<longrightarrow>
         rangePenalty (rule_max rule + dl) rule \<le> rangePenalty (rule_max rule + dl') rule
         \<and> rangePenalty (rule_min rule - dl) rule \<le> rangePenalty (rule_min rule - dl') rule"
  proof
    assume a: "0 \<le> dl \<and> dl \<le> dl'"
    then have "0 \<le> dl" and "0 \<le> dl'" by simp_all
    then show "rangePenalty (rule_max rule + dl) rule \<le> rangePenalty (rule_max rule + dl') rule
         \<and> rangePenalty (rule_min rule - dl) rule \<le> rangePenalty (rule_min rule - dl') rule"
      using ramp_mono [OF pos assms(2), of dl dl'] a by (simp only: above below)
  qed
  have strict: "0 < rule_weight rule \<and> 0 \<le> dl \<and> dl < dl' \<and> dl' \<le> cap \<longrightarrow>
         rangePenalty (rule_max rule + dl) rule < rangePenalty (rule_max rule + dl') rule
         \<and> rangePenalty (rule_min rule - dl) rule < rangePenalty (rule_min rule - dl') rule"
  proof
    assume a: "0 < rule_weight rule \<and> 0 \<le> dl \<and> dl < dl' \<and> dl' \<le> cap"
    then have "0 \<le> dl" and "0 \<le> dl'" by simp_all
    then show "rangePenalty (rule_max rule + dl) rule < rangePenalty (rule_max rule + dl') rule
         \<and> rangePenalty (rule_min rule - dl) rule < rangePenalty (rule_min rule - dl') rule"
      using ramp_strict [OF pos, of "rule_weight rule" dl dl'] a by (simp only: above below)
  qed
  have capped: "cap \<le> dl \<longrightarrow>
         rangePenalty (rule_max rule + dl) rule = rule_weight rule
         \<and> rangePenalty (rule_min rule - dl) rule = rule_weight rule"
  proof
    assume "cap \<le> dl"
    with pos have "0 \<le> dl" by simp
    with \<open>cap \<le> dl\<close> show "rangePenalty (rule_max rule + dl) rule = rule_weight rule
         \<and> rangePenalty (rule_min rule - dl) rule = rule_weight rule"
      using ramp_cap [OF pos, of dl "rule_weight rule"] by (simp only: above below)
  qed
  from inside mono strict capped show ?thesis by blast
qed

theorem rangePenalty_monotone_capped_witness:
  "rangePenalty 50 \<lparr>rule_min = 40, rule_max = 60, rule_weight = 30\<rparr> = 0
   \<and> rangePenalty (60 + 2) \<lparr>rule_min = 40, rule_max = 60, rule_weight = 30\<rparr>
       < rangePenalty (60 + 5) \<lparr>rule_min = 40, rule_max = 60, rule_weight = 30\<rparr>
   \<and> rangePenalty (40 - 2) \<lparr>rule_min = 40, rule_max = 60, rule_weight = 30\<rparr>
       < rangePenalty (40 - 5) \<lparr>rule_min = 40, rule_max = 60, rule_weight = 30\<rparr>
   \<and> rangePenalty (60 + 10) \<lparr>rule_min = 40, rule_max = 60, rule_weight = 30\<rparr> = 30
   \<and> rangePenalty (40 - 10) \<lparr>rule_min = 40, rule_max = 60, rule_weight = 30\<rparr> = 30"
  using rangePenalty_monotone_capped
      [of "\<lparr>rule_min = 40, rule_max = 60, rule_weight = 30\<rparr>" 50 2 5]
    rangePenalty_monotone_capped
      [of "\<lparr>rule_min = 40, rule_max = 60, rule_weight = 30\<rparr>" 50 10 10]
  by simp

text \<open>
  C7 as stated fails for an interval of width zero: for the rule \<open>min = max = 50\<close>,
  \<open>weight = 10\<close> and the value 50.5, the distance 0.5 is at least half the width, which
  is 0, and the penalty is 5, not the weight 10.
\<close>

theorem rangePenalty_zero_width_not_capped:
  "\<not> (rule_min \<lparr>rule_min = 50, rule_max = 50, rule_weight = 10\<rparr>
          \<le> rule_max \<lparr>rule_min = 50, rule_max = 50, rule_weight = 10\<rparr>
       \<and> 0 \<le> rule_weight \<lparr>rule_min = 50, rule_max = 50, rule_weight = 10\<rparr>
       \<and> (50 - 50) / 2 \<le> (101 / 2 - 50 :: real)
       \<longrightarrow> rangePenalty (101 / 2) \<lparr>rule_min = 50, rule_max = 50, rule_weight = 10\<rparr> = 10)
   \<and> rangePenalty (101 / 2) \<lparr>rule_min = 50, rule_max = 50, rule_weight = 10\<rparr> = 5"
  by (simp add: rangePenalty_def)

section \<open>The penalty as a number\<close>

lemma num_add_Num_assoc: "num_add (num_add (Num p) X) (Num q) = num_add (Num (p + q)) X"
  by (cases X) simp_all

lemma hueSectorLoop_finite: "\<exists>x. hueSectorLoop h secs (Num y) = Num x"
  by (induction secs arbitrary: y) (auto simp: Math_min_def)

lemma hueSectorDistance_Nil: "hueSectorDistance h [] = PosInf"
  by (simp add: hueSectorDistance_def)

lemma hueSectorDistance_finite:
  assumes "secs \<noteq> []"
  shows "\<exists>x. hueSectorDistance h secs = Num x"
proof (cases secs)
  case Nil
  with assms show ?thesis by simp
next
  case (Cons s rest)
  obtain a b where "s = (a, b)" by (cases s)
  with Cons show ?thesis
    using hueSectorLoop_finite [of h rest "degToEdgeDistance h a b"]
    by (simp add: hueSectorDistance_def Math_min_def)
qed

lemma huePenaltyPts_Num:
  assumes "hueSectorDistance H (sectors rule) = Num x"
  shows "huePenaltyPts H rule =
     Num (min (x / (if toleranceDegrees rule = 0 then 60 else toleranceDegrees rule)) 1
          * hue_weight rule)"
  using assms by (simp add: huePenaltyPts_def Let_def Math_min_def min_def)

lemma huePenaltyPts_finite:
  assumes "sectors rule \<noteq> []"
  shows "\<exists>x. huePenaltyPts H rule = Num x"
proof -
  obtain x where "hueSectorDistance H (sectors rule) = Num x"
    using hueSectorDistance_finite [OF assms] by blast
  then show ?thesis using huePenaltyPts_Num by blast
qed

lemma huePenaltyPts_Nil:
  assumes "sectors rule = []"
  shows "huePenaltyPts H rule =
     (if 0 \<le> toleranceDegrees rule then Num (hue_weight rule)
      else inf_of_sign (- hue_weight rule))"
  using assms by (simp add: huePenaltyPts_def hueSectorDistance_Nil Math_min_def)

lemma huePenaltyPts_NaN_iff:
  "huePenaltyPts H rule = NaN \<longleftrightarrow>
     sectors rule = [] \<and> toleranceDegrees rule < 0 \<and> hue_weight rule = 0"
proof (cases "sectors rule = []")
  case True
  then show ?thesis by (auto simp: huePenaltyPts_Nil inf_of_sign_def)
next
  case False
  then show ?thesis using huePenaltyPts_finite [OF False, of H] by auto
qed

lemma num_add_zero: "num_add X (Num 0) = X"
  by (cases X) simp_all

lemma fst_warmthBlock: "\<exists>q. fst (warmthBlock lb w st) = num_add (fst st) (Num q)"
proof (cases "fst (warmthBlock lb w st) = fst st")
  case True
  then show ?thesis using num_add_zero [of "fst st"] by metis
next
  case False
  then show ?thesis by (auto simp: warmthBlock_def split: option.splits if_splits)
qed

lemma penalty_shape:
  "\<exists>p. fst (penaltyAndNotes lb profile) =
     num_add (Num p) (huePenaltyPts (labHue lb) (hueSectors profile))"
proof -
  let ?H = "labHue lb"
  let ?st2 = "rangeBlock (hypot (lab_a lb) (lab_b lb)) (chroma profile)
                ''too gray/soft'' ''too saturated/bright''
                (rangeBlock (lab_L lb) (lightness profile)
                   ''too dark for this tone'' ''too light/washed'' (Num 0, []))"
  obtain p2 where p2: "fst ?st2 = Num p2"
    by (simp add: rangeBlock_def Let_def)
  let ?st3 = "hueBlock ?H (hueSectors profile) ?st2"
  have st3: "fst ?st3 = num_add (Num p2) (huePenaltyPts ?H (hueSectors profile))"
    using p2 by (simp add: hueBlock_def Let_def)
  obtain q where "fst (warmthBlock lb (warmthPenalty profile) ?st3) =
      num_add (fst ?st3) (Num q)"
    using fst_warmthBlock by blast
  then have "fst (penaltyAndNotes lb profile) =
      num_add (Num (p2 + q)) (huePenaltyPts ?H (hueSectors profile))"
    by (simp add: penaltyAndNotes_def Let_def st3 num_add_Num_assoc)
  then show ?thesis by blast
qed

lemma round1_bounds:
  assumes "0 \<le> x" and "x \<le> 100"
  shows "\<exists>y. round1 (Num x) = Num y \<and> 0 \<le> y \<and> y \<le> 100"
proof -
  have "0 \<le> \<lfloor>x * 10 + 1 / 2\<rfloor>" using assms by simp
  moreover have "\<lfloor>x * 10 + 1 / 2\<rfloor> \<le> 1000" using assms by (simp add: floor_le_iff)
  ultimately have "0 \<le> real_of_int \<lfloor>x * 10 + 1 / 2\<rfloor> / 10"
    and "real_of_int \<lfloor>x * 10 + 1 / 2\<rfloor> / 10 \<le> 100" by simp_all
  moreover have "round1 (Num x) = Num (real_of_int \<lfloor>x * 10 + 1 / 2\<rfloor> / 10)"
    by (simp add: round1_def Math_round_real_def)
  ultimately show ?thesis by blast
qed

lemma scoreOf_Num: "scoreOf (Num p) = Num (max 0 (min (100 - p) 100))"
  by (simp add: scoreOf_def clamp_def Math_min_def Math_max_def num_sub_def max_def min_def)

lemma scoreOf_PosInf: "scoreOf PosInf = Num 0"
  by (simp add: scoreOf_def clamp_def Math_min_def Math_max_def num_sub_def)

lemma scoreOf_NegInf: "scoreOf NegInf = Num 100"
  by (simp add: scoreOf_def clamp_def Math_min_def Math_max_def num_sub_def)

lemma scoreOf_NaN: "scoreOf NaN = NaN"
  by (simp add: scoreOf_def clamp_def Math_min_def Math_max_def num_sub_def)

lemma round1_NaN: "round1 NaN = NaN"
  by (simp add: round1_def)

lemma rounded_score_bounds:
  assumes "X \<noteq> NaN"
  shows "\<exists>y. round1 (scoreOf X) = Num y \<and> 0 \<le> y \<and> y \<le> 100"
proof (cases X)
  case (Num p)
  have "0 \<le> max 0 (min (100 - p) 100)" and "max 0 (min (100 - p) 100) \<le> 100" by simp_all
  then show ?thesis using Num round1_bounds by (simp add: scoreOf_Num)
next
  case PosInf
  then show ?thesis using round1_bounds [of 0] by (simp add: scoreOf_PosInf)
next
  case NegInf
  then show ?thesis using round1_bounds [of 100] by (simp add: scoreOf_NegInf)
next
  case NaN
  with assms show ?thesis by simp
qed

lemma num_add_Num_NaN_iff: "num_add (Num p) X = NaN \<longleftrightarrow> X = NaN"
  by (cases X) simp_all

lemma penaltyAndNotes_black_degenerate:
  "fst (penaltyAndNotes \<lparr>lab_L = 0, lab_a = 0, lab_b = 0\<rparr> degenerate_profile) = NaN"
  by (simp add: penaltyAndNotes_def labHue_origin hypot_origin rangeBlock_def rangePenalty_def
      hueBlock_def huePenaltyPts_def hueSectorDistance_def Math_min_def num_gt_def
      warmthBlock_def inf_of_sign_def)

section \<open>The score\<close>

text \<open>
  The score of a result, after the rounding to one decimal, is a finite number between 0
  and 100, except for a profile whose hue rule has no sector, a negative
  \<^verbatim>\<open>toleranceDegrees\<close> and the weight 0: there the hue penalty is \<^verbatim>\<open>-Infinity * 0\<close> and
  the score is \<^verbatim>\<open>NaN\<close>.
\<close>

lemma score_bounds:
  assumes "evaluateTone hex profile = Inr (res, profile')"
  shows "if sectors (hueSectors profile) = [] \<and> toleranceDegrees (hueSectors profile) < 0
            \<and> hue_weight (hueSectors profile) = 0
         then score res = NaN
         else \<exists>x. score res = Num x \<and> 0 \<le> x \<and> x \<le> 100"
proof -
  obtain p where p: "fst (penaltyAndNotes (lab res) profile) =
      num_add (Num p) (huePenaltyPts (labHue (lab res)) (hueSectors profile))"
    using penalty_shape by blast
  have sc: "score res = round1 (scoreOf (fst (penaltyAndNotes (lab res) profile)))"
    using evaluateTone_Inr_fields(1) [OF assms] .
  show ?thesis
  proof (cases "huePenaltyPts (labHue (lab res)) (hueSectors profile) = NaN")
    case True
    then have "score res = NaN" by (simp add: sc p scoreOf_NaN round1_NaN)
    moreover from True have "sectors (hueSectors profile) = []
        \<and> toleranceDegrees (hueSectors profile) < 0 \<and> hue_weight (hueSectors profile) = 0"
      by (simp only: huePenaltyPts_NaN_iff)
    ultimately show ?thesis by simp
  next
    case False
    then have "fst (penaltyAndNotes (lab res) profile) \<noteq> NaN"
      by (simp add: p num_add_Num_NaN_iff)
    then have "\<exists>x. score res = Num x \<and> 0 \<le> x \<and> x \<le> 100"
      using rounded_score_bounds by (simp add: sc)
    moreover from False have "\<not> (sectors (hueSectors profile) = []
        \<and> toleranceDegrees (hueSectors profile) < 0 \<and> hue_weight (hueSectors profile) = 0)"
      using huePenaltyPts_NaN_iff by blast
    ultimately show ?thesis by auto
  qed
qed

lemma score_bounds_at_black:
  "evaluateTone ''#000000'' sample_profile =
     Inr (\<lparr>input = ''#000000'', toneLabel = ''Summer'',
           lab = \<lparr>lab_L = 0, lab_a = 0, lab_b = 0\<rparr>, res_chroma = 0, hue = 0,
           score = Num 30, matchLevel = ''Poor'',
           res_notes = [''too dark for this tone'', ''too gray/soft'',
                        ''leans outside cool hue sectors'']\<rparr>,
          sample_profile\<lparr>matchBuckets :=
            [\<lparr>minScore = 90, bucket_label = ''Perfect''\<rparr>,
             \<lparr>minScore = 70, bucket_label = ''Good''\<rparr>,
             \<lparr>minScore = 0, bucket_label = ''Poor''\<rparr>]\<rparr>)
   \<and> (\<exists>x. Num 30 = Num x \<and> 0 \<le> x \<and> x \<le> 100)"
  using score_bounds [OF evaluateTone_black_sample] evaluateTone_black_sample by simp

text \<open>
  C4 says that the score of every result is between 0 and 100, and the type of the result
  documents it (\<^verbatim>\<open>score: number; // 0..100\<close>). For \<^verbatim>\<open>"#000000"\<close> and the sample profile
  with the hue rule \<^verbatim>\<open>{sectors: [], toleranceDegrees: -1, weight: 0}\<close> the code returns
  the score \<^verbatim>\<open>NaN\<close>: \<^verbatim>\<open>clamp\<close> does not bound a \<^verbatim>\<open>NaN\<close>.
\<close>

theorem score_NaN_for_degenerate_hue_rule:
  "map_sum id (score \<circ> fst) (evaluateTone ''#000000'' degenerate_profile) = Inr NaN"
  by (simp add: evaluateTone_Inr [OF hexToRgb_black] rgbToLab_black
      penaltyAndNotes_black_degenerate scoreOf_NaN round1_NaN)

section \<open>The notes\<close>

lemma snd_rangeBlock:
  "snd (rangeBlock v rule lo hi st) =
     snd st @ (if v < rule_min rule then [lo] else []) @ (if v > rule_max rule then [hi] else [])"
  by (simp add: rangeBlock_def Let_def)

lemma snd_hueBlock:
  "snd (hueBlock H rule st) =
     snd st @ (if num_gt (hueSectorDistance H (sectors rule)) (Num 0)
               then [''leans outside cool hue sectors''] else [])"
  by (simp add: hueBlock_def Let_def)

lemma snd_warmthBlock:
  "snd (warmthBlock lb w st) =
     snd st @ (case w of None \<Rightarrow> []
               | Some r \<Rightarrow> if lab_b lb > lab_b_gt r then [''yellow warmth present''] else [])"
  by (simp add: warmthBlock_def split: option.splits)

lemma snd_penaltyAndNotes:
  "snd (penaltyAndNotes lb profile) =
     (if lab_L lb < rule_min (lightness profile) then [''too dark for this tone''] else [])
     @ (if lab_L lb > rule_max (lightness profile) then [''too light/washed''] else [])
     @ (if hypot (lab_a lb) (lab_b lb) < rule_min (chroma profile) then [''too gray/soft'']
        else [])
     @ (if hypot (lab_a lb) (lab_b lb) > rule_max (chroma profile)
        then [''too saturated/bright''] else [])
     @ (if num_gt (hueSectorDistance (labHue lb) (sectors (hueSectors profile))) (Num 0)
        then [''leans outside cool hue sectors''] else [])
     @ (case warmthPenalty profile of None \<Rightarrow> []
        | Some r \<Rightarrow> if lab_b lb > lab_b_gt r then [''yellow warmth present''] else [])"
  by (simp add: penaltyAndNotes_def Let_def snd_warmthBlock snd_hueBlock snd_rangeBlock)

text \<open>
  C9, as the code has it. For a profile whose \<^verbatim>\<open>hueSectors.sectors\<close> is empty the hue
  distance is \<^verbatim>\<open>Infinity\<close> for every hue, and the note
  \<^verbatim>\<open>"leans outside cool hue sectors"\<close> is appended, by the hue block and so in the result
  of \<^verbatim>\<open>evaluateTone\<close> for every accepted hex string. When \<^verbatim>\<open>toleranceDegrees\<close> is not
  negative, the ramp fraction is 1 and the hue block adds the full \<^verbatim>\<open>hueSectors.weight\<close>
  to the penalty.
\<close>

theorem empty_sectors_full_hue_weight:
  assumes "sectors (hueSectors profile) = []"
  shows "hueSectorDistance H (sectors (hueSectors profile)) = PosInf
    \<and> (0 \<le> toleranceDegrees (hueSectors profile) \<longrightarrow>
         Math_min
           (num_div (hueSectorDistance H (sectors (hueSectors profile)))
              (Num (if toleranceDegrees (hueSectors profile) = 0 then 60
                    else toleranceDegrees (hueSectors profile))))
           (Num 1) = Num 1
         \<and> huePenaltyPts H (hueSectors profile) = Num (hue_weight (hueSectors profile))
         \<and> fst (hueBlock H (hueSectors profile) st) =
             num_add (fst st) (Num (hue_weight (hueSectors profile))))
    \<and> snd (hueBlock H (hueSectors profile) st) = snd st @ [''leans outside cool hue sectors'']
    \<and> (\<forall>res profile'. evaluateTone hex profile = Inr (res, profile') \<longrightarrow>
         ''leans outside cool hue sectors'' \<in> set (res_notes res))"
proof -
  have d: "hueSectorDistance H (sectors (hueSectors profile)) = PosInf" for H
    using assms by (simp add: hueSectorDistance_Nil)
  have frac: "Math_min
           (num_div (hueSectorDistance H (sectors (hueSectors profile)))
              (Num (if toleranceDegrees (hueSectors profile) = 0 then 60
                    else toleranceDegrees (hueSectors profile))))
           (Num 1) = Num 1"
    and pts: "huePenaltyPts H (hueSectors profile) = Num (hue_weight (hueSectors profile))"
    and blk: "fst (hueBlock H (hueSectors profile) st) =
             num_add (fst st) (Num (hue_weight (hueSectors profile)))"
    if "0 \<le> toleranceDegrees (hueSectors profile)"
    using that by (simp_all add: d Math_min_def hueBlock_def huePenaltyPts_Nil [OF assms])
  have appended: "snd (hueBlock H (hueSectors profile) st) =
      snd st @ [''leans outside cool hue sectors'']"
    by (simp add: snd_hueBlock d num_gt_def)
  have res: "''leans outside cool hue sectors'' \<in> set (res_notes res)"
    if "evaluateTone hex profile = Inr (res, profile')" for res profile'
    by (simp add: evaluateTone_Inr_fields(3) [OF that] snd_penaltyAndNotes d num_gt_def)
  from d frac pts blk appended res show ?thesis by blast
qed

theorem empty_sectors_full_hue_weight_witness:
  "sectors (hueSectors no_sector_profile) = []
   \<and> huePenaltyPts 0 (hueSectors no_sector_profile) = Num 30
   \<and> hueBlock 0 (hueSectors no_sector_profile) (Num 40, [''too dark for this tone'']) =
       (Num 70, [''too dark for this tone'', ''leans outside cool hue sectors''])"
  using empty_sectors_full_hue_weight
    [of no_sector_profile 0 "(Num 40, [''too dark for this tone''])" "''#000000''"]
  by (simp add: prod_eq_iff)

text \<open>
  C9 as stated fails for a negative \<^verbatim>\<open>toleranceDegrees\<close>: with the hue rule
  \<^verbatim>\<open>{sectors: [], toleranceDegrees: -1, weight: 10}\<close> the fraction is
  \<^verbatim>\<open>Math.min(Infinity / -1, 1)\<close>, and the hue penalty for \<^verbatim>\<open>"#000000"\<close> is
  \<^verbatim>\<open>-Infinity\<close>, not the weight 10.
\<close>

theorem negative_tolerance_hue_penalty:
  "hexToRgb ''#000000'' = Inr (0, 0, 0)
   \<and> huePenaltyPts (labHue (rgbToLab 0 0 0))
       \<lparr>sectors = [], toleranceDegrees = - 1, hue_weight = 10\<rparr> = NegInf"
  by (simp add: hexToRgb_black huePenaltyPts_Nil inf_of_sign_def)

text \<open>
  C10: for every accepted hex string and every profile whose lightness and chroma rules
  have \<open>min \<le> max\<close>, the notes of the result are, in this order, at most one lightness
  note (too dark below \<open>min\<close>, too light above \<open>max\<close>), at most one chroma note (too gray
  below \<open>min\<close>, too saturated above \<open>max\<close>), the hue note when the hue distance is
  positive, and the warmth note when the warmth rule is present and \<open>b\<close> exceeds its
  threshold; so at most 4 notes.
\<close>

theorem notes_order:
  assumes "evaluateTone hex profile = Inr (res, profile')"
    and "rule_min (lightness profile) \<le> rule_max (lightness profile)"
    and "rule_min (chroma profile) \<le> rule_max (chroma profile)"
  shows "res_notes res =
     (if lab_L (lab res) < rule_min (lightness profile) then [''too dark for this tone'']
      else if lab_L (lab res) > rule_max (lightness profile) then [''too light/washed'']
      else [])
     @ (if hypot (lab_a (lab res)) (lab_b (lab res)) < rule_min (chroma profile)
        then [''too gray/soft'']
        else if hypot (lab_a (lab res)) (lab_b (lab res)) > rule_max (chroma profile)
        then [''too saturated/bright'']
        else [])
     @ (if num_gt (hueSectorDistance (labHue (lab res)) (sectors (hueSectors profile))) (Num 0)
        then [''leans outside cool hue sectors''] else [])
     @ (case warmthPenalty profile of None \<Rightarrow> []
        | Some r \<Rightarrow> if lab_b (lab res) > lab_b_gt r then [''yellow warmth present'']
                    else [])
    \<and> length (res_notes res) \<le> 4"
proof -
  have ns: "res_notes res = snd (penaltyAndNotes (lab res) profile)"
    using evaluateTone_Inr_fields(3) [OF assms(1)] .
  have light: "\<not> (lab_L (lab res) < rule_min (lightness profile)
      \<and> lab_L (lab res) > rule_max (lightness profile))"
    using assms(2) by simp
  have chrom: "\<not> (hypot (lab_a (lab res)) (lab_b (lab res)) < rule_min (chroma profile)
      \<and> hypot (lab_a (lab res)) (lab_b (lab res)) > rule_max (chroma profile))"
    using assms(3) by simp
  show ?thesis
    using light chrom by (simp add: ns snd_penaltyAndNotes split: option.splits)
qed

theorem notes_order_witness:
  "evaluateTone ''#000000'' sample_profile =
     Inr (\<lparr>input = ''#000000'', toneLabel = ''Summer'',
           lab = \<lparr>lab_L = 0, lab_a = 0, lab_b = 0\<rparr>, res_chroma = 0, hue = 0,
           score = Num 30, matchLevel = ''Poor'',
           res_notes = [''too dark for this tone'', ''too gray/soft'',
                        ''leans outside cool hue sectors'']\<rparr>,
          sample_profile\<lparr>matchBuckets :=
            [\<lparr>minScore = 90, bucket_label = ''Perfect''\<rparr>,
             \<lparr>minScore = 70, bucket_label = ''Good''\<rparr>,
             \<lparr>minScore = 0, bucket_label = ''Poor''\<rparr>]\<rparr>)
   \<and> rule_min (lightness sample_profile) \<le> rule_max (lightness sample_profile)
   \<and> rule_min (chroma sample_profile) \<le> rule_max (chroma sample_profile)
   \<and> num_gt (hueSectorDistance 0 [(180, 300)]) (Num 0)
   \<and> length [''too dark for this tone'', ''too gray/soft'',
              ''leans outside cool hue sectors''] \<le> (4 :: nat)"
  using notes_order [OF evaluateTone_black_sample] evaluateTone_black_sample
  by (simp add: labHue_origin hypot_origin split: if_splits)

section \<open>The buckets\<close>

lemma mset_sortBuckets: "mset (sortBuckets bs) = mset bs"
  by (simp add: sortBuckets_def)

lemma set_sortBuckets: "set (sortBuckets bs) = set bs"
  by (simp add: sortBuckets_def)

lemma sortBuckets_descending: "sorted_wrt (\<lambda>x y. minScore x \<ge> minScore y) (sortBuckets bs)"
proof -
  have "sorted (map (\<lambda>b. - minScore b) (sortBuckets bs))"
    by (simp add: sortBuckets_def)
  then show ?thesis by (simp add: sorted_wrt_map)
qed

lemma sortBuckets_stable:
  "filter (\<lambda>b. minScore b = k) (sortBuckets bs) = filter (\<lambda>b. minScore b = k) bs"
  using sort_key_stable [of "\<lambda>b. - minScore b" "- k" bs] by (simp add: sortBuckets_def)

lemma pickLabel_cases:
  "if \<exists>b \<in> set bs. num_ge sc (Num (minScore b))
   then \<exists>i < length bs. num_ge sc (Num (minScore (bs ! i)))
          \<and> (\<forall>j < i. \<not> num_ge sc (Num (minScore (bs ! j))))
          \<and> pickLabel sc bs = bucket_label (bs ! i)
   else pickLabel sc bs = ''not a match''"
proof (cases "find (\<lambda>b. num_ge sc (Num (minScore b))) bs")
  case None
  then have "\<not> (\<exists>b \<in> set bs. num_ge sc (Num (minScore b)))"
    by (auto simp: find_None_iff)
  moreover have "pickLabel sc bs = ''not a match''"
    by (simp add: pickLabel_def None)
  ultimately show ?thesis by simp
next
  case (Some b)
  then obtain i where "i < length bs" and "num_ge sc (Num (minScore (bs ! i)))"
    and "b = bs ! i" and "\<forall>j < i. \<not> num_ge sc (Num (minScore (bs ! j)))"
    by (auto simp: find_Some_iff)
  moreover from this have "\<exists>b \<in> set bs. num_ge sc (Num (minScore b))"
    using nth_mem by blast
  ultimately show ?thesis using Some by (auto simp: pickLabel_def)
qed

text \<open>
  C6: \<^verbatim>\<open>evaluateTone\<close> succeeds on every hex string of length 3 or 6 after the
  \<^verbatim>\<open>#\<close>, whatever the buckets. The sorted buckets are a permutation of
  \<^verbatim>\<open>matchBuckets\<close> in descending order of \<^verbatim>\<open>minScore\<close>, buckets of equal
  \<^verbatim>\<open>minScore\<close> in their original order. With \<open>sc\<close> the local \<^verbatim>\<open>score\<close> (the clamped
  \<^verbatim>\<open>100 - penalty\<close>, which the result reports rounded to one decimal), \<^verbatim>\<open>matchLevel\<close> is
  the label of the first sorted bucket with \<open>minScore \<le> sc\<close> when some bucket has
  \<open>minScore \<le> sc\<close>, and \<^verbatim>\<open>"not a match"\<close> otherwise, in particular when there is no
  bucket.
\<close>

theorem matchLevel_first_qualifying_bucket:
  fixes hex :: string and profile :: ToneProfile
  defines "sorted_buckets \<equiv> sortBuckets (matchBuckets profile)"
  shows "((length (stripHash hex) = 3 \<or> length (stripHash hex) = 6) \<longrightarrow>
            (\<exists>res profile'. evaluateTone hex profile = Inr (res, profile')))
    \<and> mset sorted_buckets = mset (matchBuckets profile)
    \<and> sorted_wrt (\<lambda>x y. minScore x \<ge> minScore y) sorted_buckets
    \<and> (\<forall>k. filter (\<lambda>b. minScore b = k) sorted_buckets =
             filter (\<lambda>b. minScore b = k) (matchBuckets profile))
    \<and> (\<forall>res profile'. evaluateTone hex profile = Inr (res, profile') \<longrightarrow>
         (let sc = scoreOf (fst (penaltyAndNotes (lab res) profile)) in
          score res = round1 sc
          \<and> (if \<exists>b \<in> set (matchBuckets profile). num_ge sc (Num (minScore b))
              then \<exists>i < length sorted_buckets.
                     num_ge sc (Num (minScore (sorted_buckets ! i)))
                     \<and> (\<forall>j < i. \<not> num_ge sc (Num (minScore (sorted_buckets ! j))))
                     \<and> matchLevel res = bucket_label (sorted_buckets ! i)
              else matchLevel res = ''not a match'')
          \<and> (matchBuckets profile = [] \<longrightarrow> matchLevel res = ''not a match'')))"
proof -
  have ok: "\<exists>res profile'. evaluateTone hex profile = Inr (res, profile')"
    if "length (stripHash hex) = 3 \<or> length (stripHash hex) = 6"
  proof (cases "hexToRgb hex")
    case (Inl e)
    with that show ?thesis by (auto simp: hexToRgb_Inl_iff)
  next
    case (Inr rgb)
    obtain r g b where "rgb = (r, g, b)" by (cases rgb)
    with Inr show ?thesis using evaluateTone_Inr by blast
  qed
  have level: "let sc = scoreOf (fst (penaltyAndNotes (lab res) profile)) in
          score res = round1 sc
          \<and> (if \<exists>b \<in> set (matchBuckets profile). num_ge sc (Num (minScore b))
              then \<exists>i < length sorted_buckets.
                     num_ge sc (Num (minScore (sorted_buckets ! i)))
                     \<and> (\<forall>j < i. \<not> num_ge sc (Num (minScore (sorted_buckets ! j))))
                     \<and> matchLevel res = bucket_label (sorted_buckets ! i)
              else matchLevel res = ''not a match'')
          \<and> (matchBuckets profile = [] \<longrightarrow> matchLevel res = ''not a match'')"
    if ev: "evaluateTone hex profile = Inr (res, profile')" for res profile'
  proof -
    let ?sc = "scoreOf (fst (penaltyAndNotes (lab res) profile))"
    have lv: "matchLevel res = pickLabel ?sc sorted_buckets"
      using evaluateTone_Inr_fields(2) [OF ev] by (simp add: sorted_buckets_def)
    have "if \<exists>b \<in> set (matchBuckets profile). num_ge ?sc (Num (minScore b))
              then \<exists>i < length sorted_buckets.
                     num_ge ?sc (Num (minScore (sorted_buckets ! i)))
                     \<and> (\<forall>j < i. \<not> num_ge ?sc (Num (minScore (sorted_buckets ! j))))
                     \<and> matchLevel res = bucket_label (sorted_buckets ! i)
              else matchLevel res = ''not a match''"
      using pickLabel_cases [of sorted_buckets ?sc]
      by (simp only: lv) (simp only: sorted_buckets_def set_sortBuckets)
    moreover have "matchBuckets profile = [] \<longrightarrow> matchLevel res = ''not a match''"
      by (simp add: lv sorted_buckets_def sortBuckets_def pickLabel_def)
    ultimately show ?thesis
      using evaluateTone_Inr_fields(1) [OF ev] by (simp add: Let_def)
  qed
  from ok level show ?thesis
    using mset_sortBuckets sortBuckets_descending sortBuckets_stable
    unfolding sorted_buckets_def by blast
qed

theorem matchLevel_first_qualifying_bucket_witness:
  "(length (stripHash ''#000000'') = 3 \<or> length (stripHash ''#000000'') = 6)
   \<and> (\<exists>res profile'. evaluateTone ''#000000'' sample_profile = Inr (res, profile'))
   \<and> scoreOf (fst (penaltyAndNotes \<lparr>lab_L = 0, lab_a = 0, lab_b = 0\<rparr> sample_profile)) = Num 30
   \<and> sortBuckets (matchBuckets sample_profile) =
       [\<lparr>minScore = 90, bucket_label = ''Perfect''\<rparr>,
        \<lparr>minScore = 70, bucket_label = ''Good''\<rparr>,
        \<lparr>minScore = 0, bucket_label = ''Poor''\<rparr>]
   \<and> \<not> num_ge (Num 30) (Num 90) \<and> \<not> num_ge (Num 30) (Num 70) \<and> num_ge (Num 30) (Num 0)
   \<and> map_sum id (matchLevel \<circ> fst) (evaluateTone ''#000000'' sample_profile) = Inr ''Poor''"
  using matchLevel_first_qualifying_bucket [of "''#000000''" sample_profile]
  by (simp add: evaluateTone_black_sample penaltyAndNotes_black_sample scoreOf_70
      sortBuckets_def num_ge_def stripHash_def)

section \<open>The hue distance\<close>

lemma js_rem_range:
  assumes "0 \<le> x" and "0 < y"
  shows "js_rem x y = x - y * of_int \<lfloor>x / y\<rfloor>" and "0 \<le> js_rem x y" and "js_rem x y < y"
proof -
  have "0 \<le> x / y" using assms by simp
  then have nn: "\<not> x / y < 0" by linarith
  show eq: "js_rem x y = x - y * of_int \<lfloor>x / y\<rfloor>"
    using nn by (simp add: js_rem_def)
  have "of_int \<lfloor>x / y\<rfloor> \<le> x / y" by simp
  then have "of_int \<lfloor>x / y\<rfloor> * y \<le> x"
    using assms(2) by (simp only: pos_le_divide_eq)
  then have "y * of_int \<lfloor>x / y\<rfloor> \<le> x" by (simp only: mult.commute)
  then show "0 \<le> js_rem x y" by (simp add: eq)
  have "x / y < of_int \<lfloor>x / y\<rfloor> + 1" by linarith
  then have "x < (of_int \<lfloor>x / y\<rfloor> + 1) * y"
    using assms(2) by (simp only: pos_divide_less_eq)
  then show "js_rem x y < y" by (simp add: eq algebra_simps)
qed

lemma circDist_range: "0 \<le> circDist x y" "circDist x y \<le> 180"
  using js_rem_range(2,3) [of "\<bar>x - y\<bar>" 360]
  by (simp_all add: circDist_def Let_def)

lemma circDist_is_distance: "\<exists>k::int. circDist x y = \<bar>x - y + 360 * of_int k\<bar>"
proof -
  define m where "m = \<lfloor>\<bar>x - y\<bar> / 360\<rfloor>"
  define r where "r = js_rem \<bar>x - y\<bar> 360"
  have r: "r = \<bar>x - y\<bar> - 360 * of_int m" and r0: "0 \<le> r" and r360: "r < 360"
    using js_rem_range [of "\<bar>x - y\<bar>" 360] by (simp_all add: r_def m_def)
  have c: "circDist x y = (if r > 180 then 360 - r else r)"
    by (simp add: circDist_def r_def Let_def)
  show ?thesis
  proof (cases "0 \<le> x - y")
    case True
    show ?thesis
    proof (cases "r > 180")
      case True
      have "circDist x y = \<bar>x - y + 360 * of_int (- (m + 1))\<bar>"
        using \<open>0 \<le> x - y\<close> True r r360 by (simp add: c)
      then show ?thesis by blast
    next
      case False
      have "circDist x y = \<bar>x - y + 360 * of_int (- m)\<bar>"
        using \<open>0 \<le> x - y\<close> False r r0 by (simp add: c)
      then show ?thesis by blast
    qed
  next
    case neg: False
    show ?thesis
    proof (cases "r > 180")
      case True
      have "circDist x y = \<bar>x - y + 360 * of_int (m + 1)\<bar>"
        using neg True r r360 by (simp add: c)
      then show ?thesis by blast
    next
      case False
      have "circDist x y = \<bar>x - y + 360 * of_int m\<bar>"
        using neg False r r0 by (simp add: c)
      then show ?thesis by blast
    qed
  qed
qed

lemma shifted_at_least:
  fixes r :: real and j :: int
  assumes "0 \<le> r" and "r < 360"
  shows "(if r > 180 then 360 - r else r) \<le> \<bar>r + 360 * of_int j\<bar>"
proof (cases "0 \<le> j")
  case True
  then have "0 \<le> (of_int j :: real)" by simp
  then show ?thesis using assms by (auto simp: abs_if split: if_splits)
next
  case False
  then have "j \<le> - 1" by simp
  then have "(of_int j :: real) \<le> - 1" by linarith
  then show ?thesis using assms by (auto simp: abs_if split: if_splits)
qed

lemma circDist_shortest: "circDist x y \<le> \<bar>x - y + 360 * of_int (k::int)\<bar>"
proof -
  define m where "m = \<lfloor>\<bar>x - y\<bar> / 360\<rfloor>"
  define r where "r = js_rem \<bar>x - y\<bar> 360"
  have r: "r = \<bar>x - y\<bar> - 360 * of_int m" and r0: "0 \<le> r" and r360: "r < 360"
    using js_rem_range [of "\<bar>x - y\<bar>" 360] by (simp_all add: r_def m_def)
  have c: "circDist x y = (if r > 180 then 360 - r else r)"
    by (simp add: circDist_def r_def Let_def)
  show ?thesis
  proof (cases "0 \<le> x - y")
    case True
    then have "x - y + 360 * of_int k = r + 360 * of_int (m + k)"
      using r by simp
    then show ?thesis using shifted_at_least [OF r0 r360, of "m + k"] by (simp only: c)
  next
    case False
    then have "x - y + 360 * of_int k = - (r + 360 * of_int (m - k))"
      using r by simp
    then have "\<bar>x - y + 360 * of_int k\<bar> = \<bar>r + 360 * of_int (m - k)\<bar>"
      by (simp only: abs_minus)
    then show ?thesis using shifted_at_least [OF r0 r360, of "m - k"] by (simp only: c)
  qed
qed

lemma circDist_zero_iff:
  assumes "0 \<le> x" "x < 360" "0 \<le> y" "y < 360"
  shows "circDist x y = 0 \<longleftrightarrow> x = y"
proof -
  have "\<bar>x - y\<bar> < 360" using assms by linarith
  then have "js_rem \<bar>x - y\<bar> 360 = \<bar>x - y\<bar>" by (simp add: js_rem_small)
  then show ?thesis using \<open>\<bar>x - y\<bar> < 360\<close> by (auto simp: circDist_def Let_def)
qed

lemma inSector_edge: "h = a \<or> h = b \<Longrightarrow> inSector h a b"
  by (auto simp: inSector_def)

lemma degToEdgeDistance_positive:
  assumes "0 \<le> h" "h < 360" "0 \<le> a" "a < 360" "0 \<le> b" "b < 360" and "\<not> inSector h a b"
  shows "0 < degToEdgeDistance h a b"
proof -
  have "h \<noteq> a" and "h \<noteq> b" using assms(7) inSector_edge by blast+
  then have "circDist h a \<noteq> 0" and "circDist h b \<noteq> 0"
    using assms by (simp_all add: circDist_zero_iff)
  then have "0 < circDist h a" and "0 < circDist h b"
    using circDist_range(1) [of h a] circDist_range(1) [of h b] by linarith+
  then show ?thesis by (simp add: degToEdgeDistance_def)
qed

lemma hueSectorLoop_inside:
  assumes "\<exists>s \<in> set secs. inSector h (fst s) (snd s)"
  shows "hueSectorLoop h secs best = Num 0"
  using assms
proof (induction secs arbitrary: best)
  case Nil
  then show ?case by simp
next
  case (Cons s rest)
  obtain a b where s: "s = (a, b)" by (cases s)
  show ?case
  proof (cases "inSector h a b")
    case True
    then show ?thesis by (simp add: s)
  next
    case False
    with Cons.prems s have "\<exists>s \<in> set rest. inSector h (fst s) (snd s)" by auto
    then show ?thesis using Cons.IH False by (simp add: s)
  qed
qed

lemma hueSectorLoop_outside:
  assumes "\<forall>s \<in> set secs. \<not> inSector h (fst s) (snd s)"
  shows "hueSectorLoop h secs (Num x) =
     Num (fold min (map (\<lambda>s. degToEdgeDistance h (fst s) (snd s)) secs) x)"
  using assms
proof (induction secs arbitrary: x)
  case Nil
  then show ?case by simp
next
  case (Cons s rest)
  obtain a b where s: "s = (a, b)" by (cases s)
  have "Math_min (Num x) (Num (degToEdgeDistance h a b)) = Num (min x (degToEdgeDistance h a b))"
    by (simp add: Math_min_def min_def)
  with Cons s show ?case by (simp add: min.commute)
qed

lemma hueSectorDistance_outside:
  assumes "secs \<noteq> []" and "\<forall>s \<in> set secs. \<not> inSector h (fst s) (snd s)"
  shows "hueSectorDistance h secs =
     Num (Min ((\<lambda>s. degToEdgeDistance h (fst s) (snd s)) ` set secs))"
proof (cases secs)
  case Nil
  with assms(1) show ?thesis by simp
next
  case (Cons s rest)
  obtain a b where s: "s = (a, b)" by (cases s)
  let ?e = "\<lambda>s. degToEdgeDistance h (fst s) (snd s)"
  have rest: "\<forall>s \<in> set rest. \<not> inSector h (fst s) (snd s)" and "\<not> inSector h a b"
    using assms(2) Cons s by auto
  then have "hueSectorDistance h secs = Num (fold min (map ?e rest) (?e s))"
    using Cons s hueSectorLoop_outside [OF rest, of "degToEdgeDistance h a b"]
    by (simp add: hueSectorDistance_def Math_min_def)
  also have "fold min (map ?e rest) (?e s) = Min (set (?e s # map ?e rest))"
    by (simp only: Min.set_eq_fold)
  also have "set (?e s # map ?e rest) = ?e ` set secs"
    using Cons by simp
  finally show ?thesis .
qed

text \<open>
  C5, as the code has it. A sector \<open>(a, b)\<close> with \<open>a \<le> b\<close> contains \<open>H\<close> iff \<open>a \<le> H \<le> b\<close>, and with
  \<open>a > b\<close> iff \<open>H \<ge> a\<close> or \<open>H \<le> b\<close>. With \<open>d\<close> the hue distance of \<open>H\<close> for the rule:
  \<open>d\<close> is 0 when \<open>H\<close> lies inside some sector; for \<open>H\<close> in \<open>[0, 360)\<close> and a rule whose
  sector bounds all lie in \<open>[0, 360)\<close>, \<open>d\<close> is 0 only then; and when \<open>H\<close> lies
  inside no sector, \<open>d\<close> is the minimum over the sectors of the smaller of the two circular
  distances from \<open>H\<close> to the sector's edges (\<^verbatim>\<open>Infinity\<close> when there is no sector). The
  circular distance of two angles is between 0 and 180, it is the distance of the two
  angles after one of them is shifted by a multiple of 360, and no such shift gives a
  smaller one. The hue penalty is \<^verbatim>\<open>min(d / t, 1) * weight\<close>, where \<open>t\<close> is
  \<^verbatim>\<open>toleranceDegrees\<close>, replaced by 60 when it is zero.
\<close>

theorem hue_distance_and_penalty:
  fixes H :: real and rule :: HueSectorsRule
  defines "secs \<equiv> sectors rule"
    and "t \<equiv> (if toleranceDegrees rule = 0 then 60 else toleranceDegrees rule)"
    and "d \<equiv> hueSectorDistance H (sectors rule)"
  shows "(\<forall>a b. inSector H a b \<longleftrightarrow> (if a \<le> b then a \<le> H \<and> H \<le> b else a \<le> H \<or> H \<le> b))
    \<and> ((\<exists>s \<in> set secs. inSector H (fst s) (snd s)) \<longrightarrow> d = Num 0)
    \<and> (0 \<le> H \<and> H < 360
        \<and> (\<forall>s \<in> set secs. 0 \<le> fst s \<and> fst s < 360 \<and> 0 \<le> snd s \<and> snd s < 360) \<longrightarrow>
          (d = Num 0 \<longleftrightarrow> (\<exists>s \<in> set secs. inSector H (fst s) (snd s))))
    \<and> (\<not> (\<exists>s \<in> set secs. inSector H (fst s) (snd s)) \<longrightarrow>
          d = (if secs = [] then PosInf
               else Num (Min ((\<lambda>s. min (circDist H (fst s)) (circDist H (snd s))) ` set secs))))
    \<and> (\<forall>x y. 0 \<le> circDist x y \<and> circDist x y \<le> 180
          \<and> (\<exists>k::int. circDist x y = \<bar>x - y + 360 * of_int k\<bar>)
          \<and> (\<forall>k::int. circDist x y \<le> \<bar>x - y + 360 * of_int k\<bar>))
    \<and> huePenaltyPts H rule = num_mul (Math_min (num_div d (Num t)) (Num 1)) (Num (hue_weight rule))
    \<and> (\<forall>x. d = Num x \<longrightarrow> huePenaltyPts H rule = Num (min (x / t) 1 * hue_weight rule))"
proof -
  let ?inside = "\<exists>s \<in> set secs. inSector H (fst s) (snd s)"
  have sector: "\<forall>a b. inSector H a b \<longleftrightarrow>
      (if a \<le> b then a \<le> H \<and> H \<le> b else a \<le> H \<or> H \<le> b)"
    by (simp add: inSector_def)
  have inside: "d = Num 0" if ?inside
    using that hueSectorLoop_inside [of secs H PosInf]
    by (simp add: d_def secs_def hueSectorDistance_def)
  have outside: "d = (if secs = [] then PosInf
      else Num (Min ((\<lambda>s. min (circDist H (fst s)) (circDist H (snd s))) ` set secs)))"
    if "\<not> ?inside"
  proof (cases "secs = []")
    case True
    then show ?thesis by (simp add: d_def secs_def hueSectorDistance_Nil)
  next
    case False
    then show ?thesis
      using that hueSectorDistance_outside [of secs H]
      by (simp add: d_def secs_def degToEdgeDistance_def)
  qed
  have only_inside: "d = Num 0 \<longleftrightarrow> ?inside"
    if range: "0 \<le> H \<and> H < 360
      \<and> (\<forall>s \<in> set secs. 0 \<le> fst s \<and> fst s < 360 \<and> 0 \<le> snd s \<and> snd s < 360)"
  proof (cases ?inside)
    case True
    then show ?thesis using inside by simp
  next
    case False
    show ?thesis
    proof (cases "secs = []")
      case True
      then show ?thesis by (simp add: d_def secs_def hueSectorDistance_Nil)
    next
      case nonempty: False
      let ?E = "(\<lambda>s. degToEdgeDistance H (fst s) (snd s)) ` set secs"
      have "\<forall>e \<in> ?E. 0 < e"
        using range False degToEdgeDistance_positive [of H] by auto
      moreover have "finite ?E" and "?E \<noteq> {}" using nonempty by simp_all
      ultimately have "0 < Min ?E" by simp
      moreover have "d = Num (Min ?E)"
        using False nonempty hueSectorDistance_outside [of secs H]
        by (simp add: d_def secs_def)
      ultimately show ?thesis using False by simp
    qed
  qed
  have circ: "\<forall>x y. 0 \<le> circDist x y \<and> circDist x y \<le> 180
          \<and> (\<exists>k::int. circDist x y = \<bar>x - y + 360 * of_int k\<bar>)
          \<and> (\<forall>k::int. circDist x y \<le> \<bar>x - y + 360 * of_int k\<bar>)"
    using circDist_range circDist_is_distance circDist_shortest by blast
  have pts: "huePenaltyPts H rule =
      num_mul (Math_min (num_div d (Num t)) (Num 1)) (Num (hue_weight rule))"
    by (simp add: huePenaltyPts_def d_def t_def Let_def)
  have finite_pts: "huePenaltyPts H rule = Num (min (x / t) 1 * hue_weight rule)"
    if "d = Num x" for x
    using that huePenaltyPts_Num [of H rule x] by (simp add: d_def t_def)
  from sector inside only_inside outside circ pts finite_pts show ?thesis by blast
qed

theorem hue_distance_and_penalty_witness:
  "inSector 355 350 10 \<and> inSector 5 350 10 \<and> \<not> inSector 180 350 10
   \<and> hueSectorDistance 355 [(350, 10), (100, 120)] = Num 0
   \<and> hueSectorDistance 180 [(350, 10), (100, 120)] = Num 60
   \<and> huePenaltyPts 180
       \<lparr>sectors = [(350, 10), (100, 120)], toleranceDegrees = 0, hue_weight = 30\<rparr> = Num 30"
  using hue_distance_and_penalty
      [of 355 "\<lparr>sectors = [(350, 10), (100, 120)], toleranceDegrees = 0, hue_weight = 30\<rparr>"]
    hue_distance_and_penalty
      [of 180 "\<lparr>sectors = [(350, 10), (100, 120)], toleranceDegrees = 0, hue_weight = 30\<rparr>"]
    hue_distance_and_penalty
      [of 5 "\<lparr>sectors = [(350, 10), (100, 120)], toleranceDegrees = 0, hue_weight = 30\<rparr>"]
  by (simp add: inSector_def circDist_def js_rem_small Math_min_def)

text \<open>
  C5 as stated fails for a sector bound outside \<open>[0, 360)\<close>: for the hue 0 and the one
  sector \<open>(300, 360)\<close> the hue lies outside the sector, and the distance to the edge 360 is
  \<^verbatim>\<open>Math.abs(0 - 360) % 360\<close>, which is 0, so \<open>d\<close> is 0.
\<close>

theorem hue_distance_zero_outside_sector:
  "hueSectorDistance 0 [(300, 360)] = Num 0 \<and> \<not> inSector 0 300 360"
  by (simp add: hueSectorDistance_def inSector_def degToEdgeDistance_def circDist_def
      js_rem_def Math_min_def)

end
